theory Spec2Isabelle
  imports Complex_Main "HOL-Library.Sublist"
begin

section \<open>JavaScript values\<close>

text \<open>
  The model covers \<open>server.js\<close>: the two request handlers \<open>/api/vision\<close> and
  \<open>/api/search\<close> and every function they call. External services (the vision client,
  the image library, the chat model, the marketplaces) and the built-ins \<open>parseFloat\<close>,
  \<open>URL\<close>, \<open>JSON.parse\<close>, \<open>Buffer.from\<close> and number-to-string conversion are
  parameters of the model, collected in a record per handler. A call that can throw
  returns \<open>error + 'a\<close>; a value that can be \<open>undefined\<close> or \<open>null\<close> is an
  \<open>option\<close>. Strings are byte strings; the character classes below are the ASCII
  ones. Numbers are rationals plus \<open>NaN\<close> (the infinities are left out). A field
  of a response has the type the code expects of it. The handler of
  \<open>/api/openai/intent\<close> and the start-up code are not part of the model.
\<close>

datatype error = Error string

datatype number = Num rat | NaN

text \<open>Truthiness of a value that is a string when present.\<close>

definition truthy :: "string option \<Rightarrow> bool" where
  "truthy s = (case s of None \<Rightarrow> False | Some t \<Rightarrow> t \<noteq> [])"

text \<open>\<open>a || b\<close> on such values.\<close>

definition or_else :: "string option \<Rightarrow> string option \<Rightarrow> string option" where
  "or_else a b = (if truthy a then a else b)"

definition or_str :: "string option \<Rightarrow> string \<Rightarrow> string" where
  "or_str a d = (case a of None \<Rightarrow> d | Some t \<Rightarrow> if t = [] then d else t)"

definition code :: "char \<Rightarrow> nat" where
  "code c = of_char c"

definition is_space :: "char \<Rightarrow> bool" where
  "is_space c = (code c = 32 \<or> (9 \<le> code c \<and> code c \<le> 13))"

definition is_digit :: "char \<Rightarrow> bool" where
  "is_digit c = (48 \<le> code c \<and> code c \<le> 57)"

definition is_upper :: "char \<Rightarrow> bool" where
  "is_upper c = (65 \<le> code c \<and> code c \<le> 90)"

definition is_lower :: "char \<Rightarrow> bool" where
  "is_lower c = (97 \<le> code c \<and> code c \<le> 122)"

definition to_upper :: "char \<Rightarrow> char" where
  "to_upper c = (if is_lower c then char_of (code c - 32) else c)"

definition to_lower :: "char \<Rightarrow> char" where
  "to_lower c = (if is_upper c then char_of (code c + 32) else c)"

definition toUpperCase :: "string \<Rightarrow> string" where
  "toUpperCase s = map to_upper s"

definition startsWith :: "string \<Rightarrow> string \<Rightarrow> bool" where
  "startsWith s p = (take (length p) s = p)"

text \<open>\<open>Array.from(new Set(xs))\<close>: the elements of \<open>xs\<close> in the order of their
  first occurrence.\<close>

definition set_add :: "'a list \<Rightarrow> 'a \<Rightarrow> 'a list" where
  "set_add acc x = (if x \<in> set acc then acc else acc @ [x])"

definition array_from_set :: "'a list \<Rightarrow> 'a list" where
  "array_from_set xs = foldl set_add [] xs"

section \<open>Helpers\<close>

text \<open>\<open>sanitizeUrl\<close>. The parameter \<open>URL\<close> is \<open>new URL(url, 'https://example.com')\<close>:
  \<open>None\<close> when the constructor throws, otherwise the pair \<open>(origin, href)\<close>.\<close>

definition is_http_url :: "string \<Rightarrow> bool" where
  "is_http_url h = (let l = map to_lower h in startsWith l ''http://'' \<or> startsWith l ''https://'')"

definition sanitizeUrl :: "(string \<Rightarrow> (string \<times> string) option) \<Rightarrow> string option \<Rightarrow> string option" where
  "sanitizeUrl URL url =
     (if \<not> truthy url then None
      else case url of None \<Rightarrow> None | Some s \<Rightarrow>
        (case URL s of
           None \<Rightarrow> None
         | Some (origin, uhref) \<Rightarrow>
             (let href = (if startsWith s ''http'' then Some s
                          else if origin = ''https://example.com'' then None else Some uhref)
              in if \<not> truthy href then None
                 else case href of None \<Rightarrow> None
                      | Some h \<Rightarrow> if \<not> is_http_url h then None else Some h)))"

text \<open>\<open>normCurrency\<close>; the euro sign is its three UTF-8 bytes.\<close>

definition euro_sign :: string where
  "euro_sign = [char_of (226 :: nat), char_of (130 :: nat), char_of (172 :: nat)]"

definition normCurrency :: "string \<Rightarrow> string" where
  "normCurrency cur =
     (if cur = [] then ''EUR''
      else if cur = euro_sign then ''EUR''
      else toUpperCase cur)"

text \<open>\<open>trimTitle\<close>: \<open>(t || '').replace(/\s+/g, ' ').trim()\<close>. The flag of
  \<open>collapse_ws\<close> says that the previous character was white space. White space is
  the ASCII white space; the Unicode spaces that \<open>\s\<close> and \<open>trim\<close> also cover
  are ordinary bytes here, as are the letters outside ASCII for \<open>toUpperCase\<close>.\<close>

fun collapse_ws :: "bool \<Rightarrow> string \<Rightarrow> string" where
  "collapse_ws in_run [] = []"
| "collapse_ws in_run (c # cs) =
     (if is_space c
      then (if in_run then collapse_ws True cs else CHR '' '' # collapse_ws True cs)
      else c # collapse_ws False cs)"

definition trim :: "string \<Rightarrow> string" where
  "trim s = rev (dropWhile is_space (rev (dropWhile is_space s)))"

definition trimTitle :: "string option \<Rightarrow> string" where
  "trimTitle t = trim (collapse_ws False (or_str t []))"

section \<open>Marketplace search\<close>

subsection \<open>Data\<close>

record listing =
  title :: string
  source :: string
  price :: "number option"
  currency :: string
  url :: "string option"

text \<open>An item summary of the Browse API: \<open>it.title\<close>, \<open>it.price\<close> with its
  \<open>value\<close> and \<open>currency\<close>, and the two links.\<close>

record browse_price =
  price_value :: "string option"
  price_currency :: "string option"

record browse_item =
  it_title :: "string option"
  it_price :: "browse_price option"
  itemWebUrl :: "string option"
  itemAffiliateWebUrl :: "string option"

text \<open>An item of the Finding API, with the nested one-element arrays read as the code
  reads them: \<open>it.title?.[0]\<close>, the fields \<open>@currencyId\<close> and \<open>__value__\<close> of
  \<open>it.sellingStatus?.[0]?.currentPrice?.[0] || {}\<close>, and \<open>it.viewItemURL?.[0]\<close>.\<close>

record finding_item =
  fi_title :: "string option"
  fi_currencyId :: "string option"
  fi_value :: "string option"
  fi_viewItemURL :: "string option"

text \<open>A result card of a scraped page, as the selectors read it: the text of the title
  element, the text of the price element, and the \<open>href\<close> of the first link.\<close>

record card =
  card_title :: string
  card_price :: string
  card_href :: "string option"

record oauth_reply =
  access_token :: "string option"
  expires_in :: "int option"

text \<open>The module variables \<open>_ebayToken\<close> and \<open>_ebayTokenExp\<close>.\<close>

record token_cache =
  ebayToken :: "string option"
  ebayTokenExp :: int

datatype provider = Browse | Finding | DoneDeal | Adverts

text \<open>The trace of a search: which provider function was called, and every HTTP
  request made.\<close>

datatype market_event =
    Invoke provider
  | TokenExchange string string
  | BrowseGet string string
  | FindingGet string string
  | PageGet provider string

record market_world =
  EBAY_CLIENT_ID :: "string option"
  EBAY_CLIENT_SECRET :: "string option"
  EBAY_APP_ID :: "string option"
  token_endpoint :: "string \<Rightarrow> string \<Rightarrow> error + oauth_reply"
  browse_endpoint :: "string \<Rightarrow> string \<Rightarrow> string \<Rightarrow> error + browse_item list option"
  finding_endpoint :: "string \<Rightarrow> string \<Rightarrow> string \<Rightarrow> error + finding_item list"
  donedeal_page :: "string \<Rightarrow> error + card list"
  adverts_page :: "string \<Rightarrow> error + card list"
  parseFloat :: "string \<Rightarrow> number"
  URL :: "string \<Rightarrow> (string \<times> string) option"
  number_to_string :: "rat \<Rightarrow> string"

datatype search_response = Status nat string | Results string "listing list"

subsection \<open>Token cache\<close>

text \<open>\<open>resp.data.expires_in || 7200\<close>\<close>

definition lifetime :: "oauth_reply \<Rightarrow> int" where
  "lifetime resp = (case expires_in resp of None \<Rightarrow> 7200 | Some n \<Rightarrow> if n = 0 then 7200 else n)"

definition getEbayAppToken ::
  "market_world \<Rightarrow> int \<Rightarrow> token_cache \<Rightarrow> (error + string option) \<times> token_cache \<times> market_event list" where
  "getEbayAppToken w now c =
     (if truthy (ebayToken c) \<and> now < ebayTokenExp c - 60 then (Inr (ebayToken c), c, [])
      else case (EBAY_CLIENT_ID w, EBAY_CLIENT_SECRET w) of
          (Some client_id, Some secret) \<Rightarrow>
            if client_id = [] \<or> secret = [] then (Inr None, c, [])
            else (case token_endpoint w client_id secret of
                    Inl e \<Rightarrow> (Inl e, c, [TokenExchange client_id secret])
                  | Inr resp \<Rightarrow>
                      (let c' = \<lparr>ebayToken = access_token resp, ebayTokenExp = now + lifetime resp\<rparr>
                       in (Inr (ebayToken c'), c', [TokenExchange client_id secret])))
        | _ \<Rightarrow> (Inr None, c, []))"

subsection \<open>Provider adapters\<close>

definition parse_price :: "market_world \<Rightarrow> string option \<Rightarrow> number" where
  "parse_price w v = (case v of None \<Rightarrow> NaN | Some s \<Rightarrow> parseFloat w s)"

definition browse_listing :: "market_world \<Rightarrow> string \<Rightarrow> browse_item \<Rightarrow> listing list" where
  "browse_listing w mp it =
     (let t = trimTitle (it_title it);
          p = (case it_price it of None \<Rightarrow> None | Some pr \<Rightarrow> Some (parse_price w (price_value pr)));
          cur = normCurrency (or_str (case it_price it of None \<Rightarrow> None | Some pr \<Rightarrow> price_currency pr) ''EUR'');
          link = sanitizeUrl (URL w) (or_else (itemWebUrl it) (itemAffiliateWebUrl it))
      in if t \<noteq> []
         then [\<lparr>title = t, source = ''eBay ('' @ mp @ '')'', price = p, currency = cur, url = link\<rparr>]
         else [])"

text \<open>The loop over \<open>marketplaces\<close> in \<open>callEbayBrowse\<close>, with its \<open>break\<close>; a
  request that throws leaves the loop through the \<open>catch\<close>.\<close>

fun browse_loop ::
  "market_world \<Rightarrow> string \<Rightarrow> string \<Rightarrow> string list \<Rightarrow> listing list \<Rightarrow> bool \<times> listing list \<times> market_event list" where
  "browse_loop w token query [] results = (True, results, [])"
| "browse_loop w token query (mp # mps) results =
     (case browse_endpoint w token mp query of
        Inl e \<Rightarrow> (False, results, [BrowseGet mp query])
      | Inr summaries \<Rightarrow>
          (let items = (case summaries of None \<Rightarrow> [] | Some xs \<Rightarrow> xs);
               results' = results @ concat (map (browse_listing w mp) items)
           in if length results' \<ge> 6 then (True, results', [BrowseGet mp query])
              else (case browse_loop w token query mps results' of
                      (ok, results'', evs) \<Rightarrow> (ok, results'', BrowseGet mp query # evs))))"

definition callEbayBrowse ::
  "market_world \<Rightarrow> int \<Rightarrow> token_cache \<Rightarrow> listing list \<Rightarrow> string
     \<Rightarrow> bool \<times> listing list \<times> token_cache \<times> market_event list" where
  "callEbayBrowse w now c results query =
     (case getEbayAppToken w now c of
        (Inl e, c', evs) \<Rightarrow> (False, results, c', evs)
      | (Inr tok, c', evs) \<Rightarrow>
          (case tok of
             None \<Rightarrow> (False, results, c', evs)
           | Some token \<Rightarrow>
               if token = [] then (False, results, c', evs)
               else (case browse_loop w token query [''EBAY_GB''] results of
                       (ok, results', evs') \<Rightarrow> (ok, results', c', evs @ evs'))))"

definition finding_listing :: "market_world \<Rightarrow> string \<Rightarrow> finding_item \<Rightarrow> listing list" where
  "finding_listing w globalId it =
     (let t = trimTitle (fi_title it);
          cur = normCurrency (or_str (fi_currencyId it) ''EUR'');
          p = (if truthy (fi_value it) then Some (parse_price w (fi_value it)) else None);
          link = sanitizeUrl (URL w) (fi_viewItemURL it)
      in if t \<noteq> []
         then [\<lparr>title = t, source = ''eBay ('' @ globalId @ '')'', price = p, currency = cur, url = link\<rparr>]
         else [])"

definition callFinding ::
  "market_world \<Rightarrow> string \<Rightarrow> string \<Rightarrow> string \<Rightarrow> listing list \<Rightarrow> bool \<times> listing list \<times> market_event list" where
  "callFinding w app_id query globalId results =
     (case finding_endpoint w app_id globalId query of
        Inl e \<Rightarrow> (False, results, [FindingGet globalId query])
      | Inr items \<Rightarrow>
          (True, results @ concat (map (finding_listing w globalId) items), [FindingGet globalId query]))"

text \<open>One link of the chain \<open>if (!ok) ok = await callFinding(...)\<close>.\<close>

definition unless_ok ::
  "market_world \<Rightarrow> string \<Rightarrow> string \<Rightarrow> string \<Rightarrow> bool \<times> listing list \<times> market_event list
     \<Rightarrow> bool \<times> listing list \<times> market_event list" where
  "unless_ok w app_id query globalId st =
     (case st of (ok, results, evs) \<Rightarrow>
        if \<not> ok
        then (case callFinding w app_id query globalId results of
                (ok', results', evs') \<Rightarrow> (ok', results', evs @ evs'))
        else (ok, results, evs))"

definition callEbayFinding ::
  "market_world \<Rightarrow> listing list \<Rightarrow> string \<Rightarrow> bool \<times> listing list \<times> market_event list" where
  "callEbayFinding w results query =
     (case EBAY_APP_ID w of
        None \<Rightarrow> (False, results, [])
      | Some app_id \<Rightarrow>
          if app_id = [] then (False, results, [])
          else unless_ok w app_id query ''EBAY-US''
                 (unless_ok w app_id query ''EBAY-GB''
                    (callFinding w app_id query ''EBAY-IE'' results)))"

text \<open>\<open>.replace(/[^0-9.,]/g, '').replace(',', '.')\<close>: the second replacement is of
  the first comma only.\<close>

fun replace_first_comma :: "string \<Rightarrow> string" where
  "replace_first_comma [] = []"
| "replace_first_comma (c # cs) = (if c = CHR '','' then CHR ''.'' # cs else c # replace_first_comma cs)"

definition price_text :: "string \<Rightarrow> string" where
  "price_text s = replace_first_comma (filter (\<lambda>c. is_digit c \<or> c = CHR ''.'' \<or> c = CHR '','') s)"

definition scraped_listing :: "market_world \<Rightarrow> string \<Rightarrow> string \<Rightarrow> card \<Rightarrow> listing list" where
  "scraped_listing w site origin el =
     (let t = trimTitle (Some (card_title el));
          priceText = price_text (card_price el);
          p = (if priceText \<noteq> [] then Some (parseFloat w priceText) else None);
          href = or_str (card_href el) [];
          href' = (if href \<noteq> [] \<and> \<not> is_http_url href then origin @ href else href);
          link = sanitizeUrl (URL w) (Some href')
      in if t \<noteq> []
         then [\<lparr>title = t, source = site, price = p, currency = ''EUR'', url = link\<rparr>]
         else [])"

definition scrapeDoneDeal :: "market_world \<Rightarrow> listing list \<Rightarrow> string \<Rightarrow> listing list \<times> market_event list" where
  "scrapeDoneDeal w results query =
     (case donedeal_page w query of
        Inl e \<Rightarrow> (results, [PageGet DoneDeal query])
      | Inr cards \<Rightarrow>
          (results @ concat (map (scraped_listing w ''DoneDeal'' ''https://www.donedeal.ie'') (take 12 cards)),
           [PageGet DoneDeal query]))"

definition scrapeAdverts :: "market_world \<Rightarrow> listing list \<Rightarrow> string \<Rightarrow> listing list \<times> market_event list" where
  "scrapeAdverts w results query =
     (case adverts_page w query of
        Inl e \<Rightarrow> (results, [PageGet Adverts query])
      | Inr cards \<Rightarrow>
          (results @ concat (map (scraped_listing w ''Adverts.ie'' ''https://www.adverts.ie'') (take 12 cards)),
           [PageGet Adverts query]))"

subsection \<open>The handler of \<open>/api/search\<close>\<close>

text \<open>The key \<open>(r.title || '') + '|' + (r.price || '') + '|' + (r.source || '')\<close>.
  The falsy prices are \<open>null\<close>, \<open>NaN\<close> and 0; any other number is converted to
  a string by the concatenation.\<close>

definition price_key :: "market_world \<Rightarrow> number option \<Rightarrow> string" where
  "price_key w p =
     (case p of
        None \<Rightarrow> []
      | Some NaN \<Rightarrow> []
      | Some (Num q) \<Rightarrow> if q = 0 then [] else number_to_string w q)"

definition dedup_key :: "market_world \<Rightarrow> listing \<Rightarrow> string" where
  "dedup_key w r = title r @ ''|'' @ price_key w (price r) @ ''|'' @ source r"

fun dedup_loop :: "market_world \<Rightarrow> listing list \<Rightarrow> string set \<Rightarrow> listing list \<Rightarrow> listing list" where
  "dedup_loop w [] seen dedup = dedup"
| "dedup_loop w (r # rs) seen dedup =
     (let key = dedup_key w r
      in if key \<notin> seen \<and> title r \<noteq> []
         then dedup_loop w rs (insert key seen) (dedup @ [r])
         else dedup_loop w rs seen dedup)"

text \<open>Lines 467 to 480: the listings collected from the providers, before
  de-duplication.\<close>

definition collect ::
  "market_world \<Rightarrow> int \<Rightarrow> token_cache \<Rightarrow> string \<Rightarrow> listing list \<times> token_cache \<times> market_event list" where
  "collect w now c query =
     (case callEbayBrowse w now c [] query of
        (used, results1, c', evs1) \<Rightarrow>
          (case (if \<not> used \<or> length results1 < 4
                 then (case callEbayFinding w results1 query of
                         (ok, results2, evs2) \<Rightarrow> (results2, Invoke Finding # evs2))
                 else (results1, [])) of
             (results2, evs2) \<Rightarrow>
               (case scrapeDoneDeal w results2 query of
                  (results3, evs3) \<Rightarrow>
                    (case scrapeAdverts w results3 query of
                       (results4, evs4) \<Rightarrow>
                         (results4, c',
                          Invoke Browse # evs1 @ evs2 @ Invoke DoneDeal # evs3 @ Invoke Adverts # evs4)))))"

definition api_search ::
  "market_world \<Rightarrow> int \<Rightarrow> token_cache \<Rightarrow> string option \<Rightarrow> search_response \<times> token_cache \<times> market_event list" where
  "api_search w now c query =
     (case query of
        None \<Rightarrow> (Status 400 ''query required'', c, [])
      | Some q \<Rightarrow>
          if q = [] then (Status 400 ''query required'', c, [])
          else (case collect w now c q of
                  (results, c', evs) \<Rightarrow>
                    (Results ''Irish & British marketplaces'' (dedup_loop w results {} []), c', evs)))"

section \<open>Image analysis\<close>

subsection \<open>Data\<close>

type_synonym bytes = string

text \<open>A value read by \<open>JSON.parse\<close>. An object is the list of its members; a member
  is looked up by \<open>map_of\<close>.\<close>

datatype json =
    JNull
  | JBool bool
  | JNumber rat
  | JString string
  | JArray "json list"
  | JObject "(string \<times> json) list"

fun js_truthy :: "json \<Rightarrow> bool" where
  "js_truthy JNull = False"
| "js_truthy (JBool b) = b"
| "js_truthy (JNumber n) = (n \<noteq> 0)"
| "js_truthy (JString s) = (s \<noteq> [])"
| "js_truthy (JArray xs) = True"
| "js_truthy (JObject kvs) = True"

text \<open>A vertex of a bounding polygon; a coordinate may be missing.\<close>

record vertex =
  vx :: "rat option"
  vy :: "rat option"

text \<open>An entry of \<open>localizedObjectAnnotations\<close>; \<open>normalizedVertices\<close> is
  \<open>boundingPoly?.normalizedVertices\<close>.\<close>

record localized_object =
  lo_name :: string
  lo_score :: "rat option"
  normalizedVertices :: "vertex list option"

record web_entity =
  we_description :: "string option"
  we_score :: "rat option"

record web_detection =
  bestGuessLabels :: "string list option"
  web_entities :: "web_entity list option"

datatype face = Face

text \<open>The response of \<open>annotateImage\<close>, with the fields the code reads. A label is its
  description and score; \<open>fullTextAnnotation\<close> is the text of the annotation when there
  is one; \<open>textAnnotations\<close> holds the descriptions.\<close>

record annotate_response =
  labelAnnotations :: "(string \<times> rat) list option"
  logoAnnotations :: "string list option"
  localizedObjectAnnotations :: "localized_object list option"
  safeSearchAnnotation :: "(string \<times> string) list option"
  faceAnnotations :: "face list option"
  fullTextAnnotation :: "string option"
  textAnnotations :: "string list option"
  webDetection :: "web_detection option"

record detected_object =
  name :: string
  score :: "rat option"
  box :: "vertex list"

text \<open>The signal bundle. The elements of \<open>logos\<close> and \<open>webEntities\<close> are strings
  until the second opinion is folded in, which adds values of the model's JSON.\<close>

record 'a signal_bundle =
  labels :: "(string \<times> rat) list"
  logos :: "'a list"
  objects :: "detected_object list"
  safeSearch :: "(string \<times> string) list"
  faceCount :: nat
  ocrText :: string
  bestGuess :: string
  webEntities :: "'a list"

record second_opinion =
  brand :: json
  model :: json
  product_type :: json
  synonyms :: "json list"
  confidence :: rat

record crop_rect =
  rect_left :: int
  rect_top :: int
  rect_width :: int
  rect_height :: int

datatype vision_event =
    PrepForOCR bytes
  | AnnotateImage bytes
  | ObjectLocalization bytes
  | Metadata bytes
  | Extract bytes crop_rect
  | ChatCompletion string

text \<open>The collaborators of the handler: \<open>Buffer.from(s, 'base64')\<close>, the \<open>sharp\<close>
  pipeline of \<open>prepForOCR\<close>, the three calls of the vision client and of \<open>sharp\<close>
  in \<open>runVisionAllFeatures\<close> and \<open>cropPrimaryObject\<close>, the chat completion (its
  result is \<open>choices[0].message.content\<close> when that is a string) and \<open>JSON.parse\<close>
  (\<open>None\<close> when it throws).\<close>

record vision_world =
  base64_decode :: "string \<Rightarrow> bytes"
  prepForOCR :: "bytes \<Rightarrow> error + bytes"
  annotateImage :: "bytes \<Rightarrow> error + annotate_response"
  objectLocalization :: "bytes \<Rightarrow> error + localized_object list option"
  sharp_metadata :: "bytes \<Rightarrow> error + nat option \<times> nat option"
  sharp_extract :: "bytes \<Rightarrow> crop_rect \<Rightarrow> error + bytes"
  chat_completion :: "string \<Rightarrow> error + string option"
  JSON_parse :: "string \<Rightarrow> json option"

datatype vision_response =
    VStatus nat string
  | VOk "json signal_bundle" "string list" "second_opinion option"

subsection \<open>\<open>runVisionAllFeatures\<close>\<close>

definition or_zero :: "rat option \<Rightarrow> rat" where
  "or_zero v = (case v of None \<Rightarrow> 0 | Some q \<Rightarrow> q)"

definition or_empty :: "'a list option \<Rightarrow> 'a list" where
  "or_empty v = (case v of None \<Rightarrow> [] | Some xs \<Rightarrow> xs)"

text \<open>\<open>sort((a, b) => (b.score || 0) - (a.score || 0))\<close>: a stable sort, highest
  score first.\<close>

definition by_score_desc :: "('a \<Rightarrow> rat option) \<Rightarrow> 'a list \<Rightarrow> 'a list" where
  "by_score_desc sc xs = sort_key (\<lambda>a. - or_zero (sc a)) xs"

definition first_text :: "annotate_response \<Rightarrow> string" where
  "first_text resp =
     (if truthy (fullTextAnnotation resp) then or_str (fullTextAnnotation resp) []
      else case textAnnotations resp of
             Some (d # ds) \<Rightarrow> d
           | _ \<Rightarrow> [])"

definition normalize_response :: "annotate_response \<Rightarrow> string signal_bundle" where
  "normalize_response resp =
     \<lparr>labels = or_empty (labelAnnotations resp),
      logos = or_empty (logoAnnotations resp),
      objects = map (\<lambda>ob. \<lparr>name = lo_name ob, score = lo_score ob, box = or_empty (normalizedVertices ob)\<rparr>)
                  (or_empty (localizedObjectAnnotations resp)),
      safeSearch = or_empty (safeSearchAnnotation resp),
      faceCount = length (or_empty (faceAnnotations resp)),
      ocrText = first_text resp,
      bestGuess = (case webDetection resp of
                     None \<Rightarrow> []
                   | Some web \<Rightarrow> (case bestGuessLabels web of Some (l # ls) \<Rightarrow> l | _ \<Rightarrow> [])),
      webEntities = (case webDetection resp of
                       None \<Rightarrow> []
                     | Some web \<Rightarrow>
                         map (\<lambda>e. or_str (we_description e) [])
                           (take 12 (by_score_desc we_score
                              (filter (\<lambda>e. truthy (we_description e)) (or_empty (web_entities web))))))\<rparr>"

definition runVisionAllFeatures ::
  "vision_world \<Rightarrow> bytes \<Rightarrow> (error + string signal_bundle) \<times> vision_event list" where
  "runVisionAllFeatures w imageBytes =
     (case annotateImage w imageBytes of
        Inl e \<Rightarrow> (Inl e, [AnnotateImage imageBytes])
      | Inr resp \<Rightarrow> (Inr (normalize_response resp), [AnnotateImage imageBytes]))"

subsection \<open>\<open>extractModelHints\<close>\<close>

text \<open>
  The three regular expressions are matched by a backtracking matcher for the
  constructs they use: \<open>\b\<close>, a literal, a character class repeated greedily between
  a lower and an optional upper bound, and a positive lookahead. Under the flag \<open>i\<close>
  a literal matches either case, and the class \<open>[A-Z0-9-]\<close> holds the letters of
  both cases.
\<close>

datatype atom =
    Bnd
  | Lit string
  | Rep "char \<Rightarrow> bool" nat "nat option"
  | Look "atom list"

definition is_letter :: "char \<Rightarrow> bool" where
  "is_letter c = (is_upper c \<or> is_lower c)"

definition is_word :: "char \<Rightarrow> bool" where
  "is_word c = (is_letter c \<or> is_digit c \<or> c = CHR ''_'')"

definition is_model_char :: "char \<Rightarrow> bool" where
  "is_model_char c = (is_letter c \<or> is_digit c \<or> c = CHR ''-'')"

text \<open>\<open>\b\<close> at position \<open>i\<close>: exactly one of the characters before and at \<open>i\<close> is a
  word character.\<close>

definition at_boundary :: "string \<Rightarrow> nat \<Rightarrow> bool" where
  "at_boundary s i =
     ((0 < i \<and> i \<le> length s \<and> is_word (s ! (i - 1))) \<noteq> (i < length s \<and> is_word (s ! i)))"

fun first_some :: "'a option list \<Rightarrow> 'a option" where
  "first_some [] = None"
| "first_some (None # xs) = first_some xs"
| "first_some (Some y # xs) = Some y"

text \<open>\<open>matches rx s i\<close> is the end of the match of \<open>rx\<close> that starts at \<open>i\<close>. A
  repetition tries the longest run first and gives characters back one at a time.\<close>

fun matches :: "atom list \<Rightarrow> string \<Rightarrow> nat \<Rightarrow> nat option" where
  "matches [] s i = Some i"
| "matches (Bnd # r) s i = (if at_boundary s i then matches r s i else None)"
| "matches (Lit l # r) s i =
     (if map to_upper (take (length l) (drop i s)) = map to_upper l
      then matches r s (i + length l) else None)"
| "matches (Rep cls lo hi # r) s i =
     (let n = length (takeWhile cls (drop i s));
          longest = (case hi of None \<Rightarrow> n | Some h \<Rightarrow> min h n)
      in first_some (map (\<lambda>k. matches r s (i + k)) (rev [lo ..< Suc longest])))"
| "matches (Look l # r) s i = (if matches l s i \<noteq> None then matches r s i else None)"

text \<open>\<open>s.match(rx)\<close> with the flag \<open>g\<close>: the matches from left to right, each search
  starting where the last match ended (one further after an empty match).\<close>

function match_all :: "atom list \<Rightarrow> string \<Rightarrow> nat \<Rightarrow> string list" where
  "match_all rx s i =
     (if length s < i then []
      else case matches rx s i of
             None \<Rightarrow> match_all rx s (Suc i)
           | Some j \<Rightarrow> take (j - i) (drop i s) # match_all rx s (if j \<le> i then Suc i else j))"
  by pat_completeness auto
termination
  by (relation "measure (\<lambda>(rx, s, i). Suc (length s) - i)") auto

text \<open>\<open>/\b[0-9]{4,6}\b/g\<close>\<close>

definition rx_digits :: "atom list" where
  "rx_digits = [Bnd, Rep is_digit 4 (Some 6), Bnd]"

text \<open>\<open>/\bSM-[A-Z0-9-]+\b/gi\<close>\<close>

definition rx_sm :: "atom list" where
  "rx_sm = [Bnd, Lit ''SM-'', Rep is_model_char 1 None, Bnd]"

text \<open>\<open>/\b(?=[A-Z0-9-]*[0-9])(?=[A-Z0-9-]*[A-Z])[A-Z0-9-]{5,}\b/gi\<close>\<close>

definition rx_alnum :: "atom list" where
  "rx_alnum =
     [Bnd,
      Look [Rep is_model_char 0 None, Rep is_digit 1 (Some 1)],
      Look [Rep is_model_char 0 None, Rep is_letter 1 (Some 1)],
      Rep is_model_char 5 None,
      Bnd]"

text \<open>The values handed to \<open>hints.add\<close>, in the order of the calls.\<close>

definition hint_candidates :: "string \<Rightarrow> string list" where
  "hint_candidates ocr =
     match_all rx_digits ocr 0
     @ map toUpperCase (match_all rx_sm ocr 0)
     @ map toUpperCase (match_all rx_alnum ocr 0)"

definition extractModelHints :: "string \<Rightarrow> string list" where
  "extractModelHints ocr = take 10 (array_from_set (hint_candidates ocr))"

subsection \<open>\<open>cropPrimaryObject\<close>\<close>

definition clamp01 :: "rat \<Rightarrow> rat" where
  "clamp01 v = max 0 (min 1 v)"

text \<open>\<open>Math.min(...xs)\<close> and \<open>Math.max(...xs)\<close>; the lists have at least four
  elements where the code calls them.\<close>

fun math_min :: "rat list \<Rightarrow> rat" where
  "math_min [] = 0"
| "math_min (v # vs) = fold min vs v"

fun math_max :: "rat list \<Rightarrow> rat" where
  "math_max [] = 0"
| "math_max (v # vs) = fold max vs v"

definition or_zero_nat :: "nat option \<Rightarrow> nat" where
  "or_zero_nat v = (case v of None \<Rightarrow> 0 | Some n \<Rightarrow> n)"

text \<open>The rectangle of a polygon in an image of \<open>W\<close> by \<open>H\<close> pixels, computed
  in exact rationals where the code computes in doubles.\<close>

definition padded_rect :: "vertex list \<Rightarrow> nat \<Rightarrow> nat \<Rightarrow> crop_rect" where
  "padded_rect verts W H =
     (let xs = map (\<lambda>v. clamp01 (or_zero (vx v))) verts;
          ys = map (\<lambda>v. clamp01 (or_zero (vy v))) verts;
          pad = 6 / 100;
          minX = max 0 (math_min xs - pad); maxX = min 1 (math_max xs + pad);
          minY = max 0 (math_min ys - pad); maxY = min 1 (math_max ys + pad);
          left = \<lfloor>minX * of_nat W\<rfloor>;
          topY = \<lfloor>minY * of_nat H\<rfloor>
      in \<lparr>rect_left = left, rect_top = topY,
          rect_width = min (int W - left) \<lceil>(maxX - minX) * of_nat W\<rceil>,
          rect_height = min (int H - topY) \<lceil>(maxY - minY) * of_nat H\<rceil>\<rparr>)"

text \<open>The annotation the cropper looks at: the first of the highest score, if any.\<close>

definition top_object :: "localized_object list \<Rightarrow> localized_object option" where
  "top_object anns = (case by_score_desc lo_score anns of [] \<Rightarrow> None | t # ts \<Rightarrow> Some t)"

definition cropPrimaryObject :: "vision_world \<Rightarrow> bytes \<Rightarrow> (error + bytes option) \<times> vision_event list" where
  "cropPrimaryObject w imageBytes =
     (case objectLocalization w imageBytes of
        Inl e \<Rightarrow> (Inl e, [ObjectLocalization imageBytes])
      | Inr objResp \<Rightarrow>
          (let anns = or_empty objResp
           in if anns = [] then (Inr None, [ObjectLocalization imageBytes])
              else case top_object anns of
                None \<Rightarrow> (Inr None, [ObjectLocalization imageBytes])
              | Some t \<Rightarrow>
                  (let verts = or_empty (normalizedVertices t)
                   in if length verts < 4 then (Inr None, [ObjectLocalization imageBytes])
                      else case sharp_metadata w imageBytes of
                        Inl e \<Rightarrow> (Inl e, [ObjectLocalization imageBytes, Metadata imageBytes])
                      | Inr (mw, mh) \<Rightarrow>
                          (let W = or_zero_nat mw; H = or_zero_nat mh
                           in if W = 0 \<or> H = 0
                              then (Inr None, [ObjectLocalization imageBytes, Metadata imageBytes])
                              else (let r = padded_rect verts W H
                                    in if rect_width r < 50 \<or> rect_height r < 50
                                       then (Inr None, [ObjectLocalization imageBytes, Metadata imageBytes])
                                       else case sharp_extract w imageBytes r of
                                         Inl e \<Rightarrow>
                                           (Inl e, [ObjectLocalization imageBytes, Metadata imageBytes,
                                                    Extract imageBytes r])
                                       | Inr buf \<Rightarrow>
                                           (Inr (Some buf), [ObjectLocalization imageBytes, Metadata imageBytes,
                                                             Extract imageBytes r]))))))"

subsection \<open>\<open>runOpenAIVisionExtract\<close>\<close>

text \<open>\<open>json.f || ''\<close>, \<open>Array.isArray(json.f) ? json.f : []\<close> and
  \<open>typeof json.f === 'number' ? json.f : 0\<close> for a parsed value that is not \<open>null\<close>;
  a value that is not an object has no such member.\<close>

definition member :: "json \<Rightarrow> string \<Rightarrow> json option" where
  "member j f = (case j of JObject kvs \<Rightarrow> map_of kvs f | _ \<Rightarrow> None)"

definition member_or_empty :: "json \<Rightarrow> string \<Rightarrow> json" where
  "member_or_empty j f =
     (case member j f of None \<Rightarrow> JString [] | Some v \<Rightarrow> if js_truthy v then v else JString [])"

definition member_array :: "json \<Rightarrow> string \<Rightarrow> json list" where
  "member_array j f = (case member j f of Some (JArray xs) \<Rightarrow> xs | _ \<Rightarrow> [])"

definition member_number :: "json \<Rightarrow> string \<Rightarrow> rat" where
  "member_number j f = (case member j f of Some (JNumber n) \<Rightarrow> n | _ \<Rightarrow> 0)"

definition data_url :: "string \<Rightarrow> string" where
  "data_url base64 = ''data:image/jpeg;base64,'' @ base64"

text \<open>\<open>out?.choices?.[0]?.message?.content?.trim?.() || '{}'\<close>\<close>

definition raw_reply :: "string option \<Rightarrow> string" where
  "raw_reply content = (case content of None \<Rightarrow> ''{}'' | Some c \<Rightarrow> if trim c = [] then ''{}'' else trim c)"

text \<open>Reading a member of \<open>null\<close> throws, which the outer \<open>catch\<close> turns into
  \<open>null\<close>.\<close>

definition runOpenAIVisionExtract ::
  "vision_world \<Rightarrow> string \<Rightarrow> second_opinion option \<times> vision_event list" where
  "runOpenAIVisionExtract w base64 =
     (case chat_completion w (data_url base64) of
        Inl e \<Rightarrow> (None, [ChatCompletion (data_url base64)])
      | Inr content \<Rightarrow>
          (let json = (case JSON_parse w (raw_reply content) of None \<Rightarrow> JObject [] | Some j \<Rightarrow> j)
           in if json = JNull then (None, [ChatCompletion (data_url base64)])
              else (Some \<lparr>brand = member_or_empty json ''brand'',
                          model = member_or_empty json ''model'',
                          product_type = member_or_empty json ''product_type'',
                          synonyms = member_array json ''synonyms'',
                          confidence = member_number json ''confidence''\<rparr>,
                    [ChatCompletion (data_url base64)])))"

subsection \<open>The handler of \<open>/api/vision\<close>\<close>

definition join_lines :: "string list \<Rightarrow> string" where
  "join_lines xs = (case xs of [] \<Rightarrow> [] | y # ys \<Rightarrow> foldl (\<lambda>acc z. acc @ [CHR 0x0A] @ z) y ys)"

text \<open>The object literal of lines 222 to 230.\<close>

definition merge_signals :: "string signal_bundle \<Rightarrow> string signal_bundle \<Rightarrow> string signal_bundle" where
  "merge_signals merged cropSignals =
     merged\<lparr>labels := labels merged @ labels cropSignals,
            logos := array_from_set (logos merged @ logos cropSignals),
            objects := objects merged @ objects cropSignals,
            ocrText := join_lines (filter (\<lambda>t. t \<noteq> []) [ocrText merged, ocrText cropSignals]),
            bestGuess := (if bestGuess merged \<noteq> [] then bestGuess merged else bestGuess cropSignals),
            webEntities := array_from_set (webEntities merged @ webEntities cropSignals)\<rparr>"

text \<open>Lines 216 to 232: \<open>merged\<close> after the \<open>try\<close> block. An exception in the block
  is caught and leaves \<open>merged\<close> as it was.\<close>

definition crop_pass ::
  "vision_world \<Rightarrow> bytes \<Rightarrow> string signal_bundle \<Rightarrow> string signal_bundle \<times> vision_event list" where
  "crop_pass w cleaned base =
     (case cropPrimaryObject w cleaned of
        (Inl e, evs) \<Rightarrow> (base, evs)
      | (Inr None, evs) \<Rightarrow> (base, evs)
      | (Inr (Some crop), evs) \<Rightarrow>
          (case prepForOCR w crop of
             Inl e \<Rightarrow> (base, evs @ [PrepForOCR crop])
           | Inr cropClean \<Rightarrow>
               (case runVisionAllFeatures w cropClean of
                  (Inl e, evs') \<Rightarrow> (base, evs @ PrepForOCR crop # evs')
                | (Inr cropSignals, evs') \<Rightarrow>
                    (merge_signals base cropSignals, evs @ PrepForOCR crop # evs'))))"

definition as_json :: "string signal_bundle \<Rightarrow> json signal_bundle" where
  "as_json b =
     \<lparr>labels = labels b, logos = map JString (logos b), objects = objects b,
      safeSearch = safeSearch b, faceCount = faceCount b, ocrText = ocrText b,
      bestGuess = bestGuess b, webEntities = map JString (webEntities b)\<rparr>"

text \<open>Lines 236 to 239.\<close>

definition fold_second_opinion :: "second_opinion option \<Rightarrow> json signal_bundle \<Rightarrow> json signal_bundle" where
  "fold_second_opinion so merged =
     (case so of
        None \<Rightarrow> merged
      | Some s \<Rightarrow>
          (let m1 = (if js_truthy (brand s)
                     then merged\<lparr>logos := array_from_set (logos merged @ [brand s])\<rparr> else merged)
           in if js_truthy (product_type s)
              then m1\<lparr>webEntities := array_from_set (webEntities m1 @ [product_type s])\<rparr> else m1))"

definition message :: "error \<Rightarrow> string \<Rightarrow> string" where
  "message e d = (case e of Error m \<Rightarrow> if m = [] then d else m)"

definition api_vision :: "vision_world \<Rightarrow> string option \<Rightarrow> vision_response \<times> vision_event list" where
  "api_vision w imageBase64 =
     (case imageBase64 of
        None \<Rightarrow> (VStatus 400 ''imageBase64 required'', [])
      | Some b64 \<Rightarrow>
          if b64 = [] then (VStatus 400 ''imageBase64 required'', [])
          else (let raw = base64_decode w b64
                in if raw = [] then (VStatus 400 ''bad image'', [])
                   else case prepForOCR w raw of
                     Inl e \<Rightarrow> (VStatus 500 (message e ''vision error''), [PrepForOCR raw])
                   | Inr cleaned \<Rightarrow>
                       (case runVisionAllFeatures w cleaned of
                          (Inl e, evs1) \<Rightarrow> (VStatus 500 (message e ''vision error''), PrepForOCR raw # evs1)
                        | (Inr base, evs1) \<Rightarrow>
                            if faceCount base > 0
                            then (VStatus 400 ''Image contains faces. Please upload only product images.'',
                                  PrepForOCR raw # evs1)
                            else (case crop_pass w cleaned base of
                                    (merged, evs2) \<Rightarrow>
                                      (let modelHints = extractModelHints (ocrText merged)
                                       in case runOpenAIVisionExtract w b64 of
                                            (secondOpinion, evs3) \<Rightarrow>
                                              (VOk (fold_second_opinion secondOpinion (as_json merged))
                                                 modelHints secondOpinion,
                                               PrepForOCR raw # evs1 @ evs2 @ evs3))))))"

subsection \<open>Reading a search trace\<close>

fun is_finding_get :: "market_event \<Rightarrow> bool" where
  "is_finding_get (FindingGet g q) = True"
| "is_finding_get _ = False"

text \<open>The number of HTTP requests sent to the Finding API.\<close>

definition finding_call_count :: "market_event list \<Rightarrow> nat" where
  "finding_call_count evs = length (filter is_finding_get evs)"

definition legacy_event :: "market_event \<Rightarrow> bool" where
  "legacy_event e = (e = Invoke Finding \<or> is_finding_get e)"

text \<open>Every adapter pushes a listing only \<open>if (title)\<close>.\<close>

definition titled :: "listing list \<Rightarrow> bool" where
  "titled rs = (\<forall>r\<in>set rs. title r \<noteq> [])"

subsection \<open>Stub marketplaces\<close>

text \<open>A world in which every marketplace times out, and three variations of it: the
  Browse API answering with five item summaries, the Finding API answering for the
  Irish site only, with three items, and the token endpoint granting a lifetime of 0.\<close>

definition stub_parseFloat :: "string \<Rightarrow> number" where
  "stub_parseFloat s =
     (if s = ''0'' then Num 0 else if s = ''10'' then Num 10
      else if s = ''12.5'' then Num (25 / 2) else NaN)"

definition stub_number_to_string :: "rat \<Rightarrow> string" where
  "stub_number_to_string q = (if q = 10 then ''10'' else if q = 25 / 2 then ''12.5'' else ''?'')"

definition stub_market :: market_world where
  "stub_market =
     \<lparr>EBAY_CLIENT_ID = Some ''id'', EBAY_CLIENT_SECRET = Some ''secret'', EBAY_APP_ID = Some ''app'',
      token_endpoint = (\<lambda>i s. Inr \<lparr>access_token = Some ''new'', expires_in = Some 3600\<rparr>),
      browse_endpoint = (\<lambda>t mp q. Inl (Error ''timeout'')),
      finding_endpoint = (\<lambda>a g q. Inl (Error ''timeout'')),
      donedeal_page = (\<lambda>q. Inl (Error ''timeout'')),
      adverts_page = (\<lambda>q. Inl (Error ''timeout'')),
      parseFloat = stub_parseFloat,
      URL = (\<lambda>s. None),
      number_to_string = stub_number_to_string\<rparr>"

definition stub_browse_item :: "string \<Rightarrow> string \<Rightarrow> browse_item" where
  "stub_browse_item t v =
     \<lparr>it_title = Some t, it_price = Some \<lparr>price_value = Some v, price_currency = Some ''gbp''\<rparr>,
      itemWebUrl = None, itemAffiliateWebUrl = None\<rparr>"

definition stub_finding_item :: "string \<Rightarrow> string \<Rightarrow> finding_item" where
  "stub_finding_item t v =
     \<lparr>fi_title = Some t, fi_currencyId = Some ''EUR'', fi_value = Some v, fi_viewItemURL = None\<rparr>"

definition five_items :: "browse_item list" where
  "five_items =
     [stub_browse_item ''Dyson V8 Absolute'' ''10'', stub_browse_item ''Dyson  V8  Absolute'' ''12.5'',
      stub_browse_item ''Dyson V8 Absolute'' ''10'', stub_browse_item ''dyson v8 '' ''0'',
      stub_browse_item ''dyson v8'' ''abc'']"

definition three_items :: "finding_item list" where
  "three_items =
     [stub_finding_item ''Dyson V8'' ''10'', stub_finding_item '' Dyson V8 '' ''10'',
      stub_finding_item ''Dyson V8 Animal'' ''12.5'']"

definition cold_cache :: token_cache where
  "cold_cache = \<lparr>ebayToken = None, ebayTokenExp = 0\<rparr>"

definition browse_five :: market_world where
  "browse_five = stub_market\<lparr>browse_endpoint := (\<lambda>t mp q. Inr (Some five_items))\<rparr>"

definition finding_three :: market_world where
  "finding_three = stub_market\<lparr>finding_endpoint :=
     (\<lambda>a g q. if g = ''EBAY-IE'' then Inr three_items else Inl (Error ''timeout''))\<rparr>"

definition zero_lifetime :: market_world where
  "zero_lifetime = stub_market\<lparr>token_endpoint :=
     (\<lambda>i s. Inr \<lparr>access_token = Some ''new'', expires_in = Some 0\<rparr>)\<rparr>"

definition listing_gb :: "string \<Rightarrow> number option \<Rightarrow> listing" where
  "listing_gb t p = \<lparr>title = t, source = ''eBay (EBAY_GB)'', price = p, currency = ''GBP'', url = None\<rparr>"

definition listing_ie :: "string \<Rightarrow> number option \<Rightarrow> listing" where
  "listing_ie t p = \<lparr>title = t, source = ''eBay (EBAY-IE)'', price = p, currency = ''EUR'', url = None\<rparr>"

subsection \<open>Stub image services\<close>

text \<open>The second opinion the code builds when no member of the reply can be read.\<close>

definition default_opinion :: second_opinion where
  "default_opinion =
     \<lparr>brand = JString [], model = JString [], product_type = JString [], synonyms = [], confidence = 0\<rparr>"

text \<open>A world in which the first pass sees a product with a logo and a model number,
  region detection returns one polygon of three vertices, and the chat model answers in
  prose; and variations of it with a face in the picture and with a chat request that
  fails.\<close>

definition empty_response :: annotate_response where
  "empty_response =
     \<lparr>labelAnnotations = None, logoAnnotations = None, localizedObjectAnnotations = None,
      safeSearchAnnotation = None, faceAnnotations = None, fullTextAnnotation = None,
      textAnnotations = None, webDetection = None\<rparr>"

definition product_response :: annotate_response where
  "product_response =
     empty_response\<lparr>logoAnnotations := Some [''Dyson'', ''dyson'', ''Dyson''],
                    fullTextAnnotation := Some ''Model SM-G991B''\<rparr>"

definition face_response :: annotate_response where
  "face_response = product_response\<lparr>faceAnnotations := Some [Face]\<rparr>"

definition triangle :: localized_object where
  "triangle =
     \<lparr>lo_name = ''Vacuum'', lo_score = Some (9 / 10),
      normalizedVertices = Some [\<lparr>vx = Some 0, vy = Some 0\<rparr>, \<lparr>vx = Some 1, vy = Some 0\<rparr>,
                                 \<lparr>vx = Some 1, vy = Some 1\<rparr>]\<rparr>"

definition stub_JSON_parse :: "string \<Rightarrow> json option" where
  "stub_JSON_parse s =
     (if s = ''{}'' then Some (JObject [])
      else if s = ''null'' then Some JNull
      else None)"

definition stub_vision :: vision_world where
  "stub_vision =
     \<lparr>base64_decode = (\<lambda>s. s),
      prepForOCR = (\<lambda>b. Inr b),
      annotateImage = (\<lambda>b. Inr product_response),
      objectLocalization = (\<lambda>b. Inr (Some [triangle])),
      sharp_metadata = (\<lambda>b. Inr (Some 800, Some 600)),
      sharp_extract = (\<lambda>b r. Inr b),
      chat_completion = (\<lambda>u. Inr (Some ''I cannot see a product.'')),
      JSON_parse = stub_JSON_parse\<rparr>"

definition stub_faces :: vision_world where
  "stub_faces = stub_vision\<lparr>annotateImage := (\<lambda>b. Inr face_response)\<rparr>"

definition stub_chat_down :: vision_world where
  "stub_chat_down = stub_vision\<lparr>chat_completion := (\<lambda>u. Inl (Error ''timeout''))\<rparr>"

section \<open>Properties of the marketplace search\<close>

subsection \<open>The de-duplication loop\<close>

lemma dedup_loop_acc: "dedup_loop w rs seen acc = acc @ dedup_loop w rs seen []"
proof (induction rs arbitrary: seen acc)
  case Nil then show ?case by simp
next
  case (Cons r rs)
  show ?case
    using Cons.IH[of "insert (dedup_key w r) seen" "acc @ [r]"] Cons.IH[of "insert (dedup_key w r) seen" "[r]"]
      Cons.IH[of seen acc]
    by (simp add: Let_def)
qed

lemma dedup_loop_Cons:
  "dedup_loop w (r # rs) seen [] =
     (if dedup_key w r \<notin> seen \<and> title r \<noteq> []
      then r # dedup_loop w rs (insert (dedup_key w r) seen) []
      else dedup_loop w rs seen [])"
  using dedup_loop_acc[of w rs "insert (dedup_key w r) seen" "[r]"] by (simp add: Let_def)

lemma dedup_loop_subseq: "subseq (dedup_loop w rs seen []) rs"
proof (induction rs arbitrary: seen)
  case Nil then show ?case by simp
next
  case (Cons r rs)
  show ?case unfolding dedup_loop_Cons using Cons.IH by (auto simp del: dedup_loop.simps)
qed

lemma dedup_loop_keys_fresh: "x \<in> set (dedup_loop w rs seen []) \<Longrightarrow> dedup_key w x \<notin> seen"
proof (induction rs arbitrary: seen)
  case Nil then show ?case by simp
next
  case (Cons r rs)
  from Cons.prems show ?case unfolding dedup_loop_Cons
    using Cons.IH by (auto simp del: dedup_loop.simps split: if_splits)
qed

lemma dedup_loop_distinct: "distinct (map (dedup_key w) (dedup_loop w rs seen []))"
proof (induction rs arbitrary: seen)
  case Nil then show ?case by simp
next
  case (Cons r rs)
  have "dedup_key w r \<notin> dedup_key w ` set (dedup_loop w rs (insert (dedup_key w r) seen) [])"
  proof
    assume "dedup_key w r \<in> dedup_key w ` set (dedup_loop w rs (insert (dedup_key w r) seen) [])"
    then obtain x where x: "x \<in> set (dedup_loop w rs (insert (dedup_key w r) seen) [])"
      and k: "dedup_key w x = dedup_key w r" by (auto simp: image_iff)
    from dedup_loop_keys_fresh[OF x] k show False by simp
  qed
  then show ?case unfolding dedup_loop_Cons
    using Cons.IH by (simp del: dedup_loop.simps)
qed

lemma dedup_loop_seen: "k \<in> seen \<Longrightarrow> filter (\<lambda>x. dedup_key w x = k) (dedup_loop w rs seen []) = []"
  using dedup_loop_keys_fresh[of _ w rs seen] by (auto simp: filter_empty_conv)

lemma dedup_loop_first:
  "k \<notin> seen \<Longrightarrow>
   filter (\<lambda>x. dedup_key w x = k) (dedup_loop w rs seen []) =
   take 1 (filter (\<lambda>x. dedup_key w x = k \<and> title x \<noteq> []) rs)"
proof (induction rs arbitrary: seen)
  case Nil then show ?case by simp
next
  case (Cons r rs)
  show ?case
  proof (cases "dedup_key w r \<notin> seen \<and> title r \<noteq> []")
    case True
    show ?thesis
    proof (cases "dedup_key w r = k")
      case k: True
      then show ?thesis using True dedup_loop_seen[of k "insert k seen" w rs]
        unfolding dedup_loop_Cons by (simp del: dedup_loop.simps)
    next
      case False
      then show ?thesis using True Cons.IH[of "insert (dedup_key w r) seen"] Cons.prems
        unfolding dedup_loop_Cons by (simp del: dedup_loop.simps)
    qed
  next
    case False
    then have "\<not> (dedup_key w r = k \<and> title r \<noteq> [])" using Cons.prems by auto
    then show ?thesis using False Cons.IH[of seen] Cons.prems
      unfolding dedup_loop_Cons by (auto simp del: dedup_loop.simps)
  qed
qed

lemma dedup_loop_keys:
  "titled rs \<Longrightarrow>
   acc @ map (dedup_key w) (dedup_loop w rs (set acc) []) = foldl set_add acc (map (dedup_key w) rs)"
proof (induction rs arbitrary: acc)
  case Nil then show ?case by simp
next
  case (Cons r rs)
  from Cons.prems have t: "title r \<noteq> []" and ts: "titled rs" by (auto simp: titled_def)
  show ?case
  proof (cases "dedup_key w r \<in> set acc")
    case True
    then show ?thesis using Cons.IH[OF ts, of acc] unfolding dedup_loop_Cons
      by (simp add: set_add_def del: dedup_loop.simps)
  next
    case False
    then show ?thesis using t Cons.IH[OF ts, of "acc @ [dedup_key w r]"] unfolding dedup_loop_Cons
      by (simp add: set_add_def del: dedup_loop.simps)
  qed
qed

lemma take1_filter_hd: "x \<in> set xs \<Longrightarrow> P x \<Longrightarrow> take 1 (filter P xs) = [hd (filter P xs)]"
  by (cases "filter P xs") (auto simp: filter_empty_conv)

subsection \<open>Collected listings have a title\<close>

lemma titled_append: "titled (xs @ ys) = (titled xs \<and> titled ys)"
  by (auto simp: titled_def)

lemma titled_browse: "titled (concat (map (browse_listing w mp) items))"
  by (auto simp: titled_def browse_listing_def Let_def split: if_splits)

lemma titled_finding: "titled (concat (map (finding_listing w g) items))"
  by (auto simp: titled_def finding_listing_def Let_def split: if_splits)

lemma titled_scraped: "titled (concat (map (scraped_listing w site origin) cards))"
  by (auto simp: titled_def scraped_listing_def Let_def split: if_splits)

lemma browse_loop_titled:
  "titled results \<Longrightarrow> browse_loop w token q mps results = (ok, results', evs) \<Longrightarrow> titled results'"
proof (induction mps arbitrary: results ok results' evs)
  case Nil then show ?case by simp
next
  case (Cons mp mps)
  show ?case
  proof (cases "browse_endpoint w token mp q")
    case (Inl e)
    with Cons.prems show ?thesis by auto
  next
    case (Inr summaries)
    define rs where "rs = results @ concat (map (browse_listing w mp) (case summaries of None \<Rightarrow> [] | Some xs \<Rightarrow> xs))"
    have t: "titled rs" using Cons.prems(1) by (simp add: rs_def titled_append titled_browse)
    show ?thesis
    proof (cases "length rs \<ge> 6")
      case True
      with Cons.prems Inr t show ?thesis by (auto simp: rs_def Let_def)
    next
      case False
      obtain ok2 r2 e2 where rec: "browse_loop w token q mps rs = (ok2, r2, e2)"
        by (cases "browse_loop w token q mps rs") auto
      from Cons.prems Inr False rec have "results' = r2"
        by (auto simp: rs_def Let_def)
      with Cons.IH[OF t rec] show ?thesis by simp
    qed
  qed
qed

lemma callEbayBrowse_titled:
  "titled results \<Longrightarrow> callEbayBrowse w now c results q = (used, results', c', evs) \<Longrightarrow> titled results'"
  unfolding callEbayBrowse_def
  by (auto simp del: browse_loop.simps split: prod.splits sum.splits option.splits if_splits
      dest: browse_loop_titled)

lemma callFinding_titled:
  "titled results \<Longrightarrow> callFinding w a q g results = (ok, results', evs) \<Longrightarrow> titled results'"
  by (auto simp: callFinding_def titled_append titled_finding split: sum.splits)

lemma unless_ok_titled:
  "titled (fst (snd st)) \<Longrightarrow> unless_ok w a q g st = (ok, results', evs) \<Longrightarrow> titled results'"
  by (cases st) (auto simp: unless_ok_def split: if_splits prod.splits dest: callFinding_titled)

lemma callEbayFinding_titled:
  assumes "titled results" and "callEbayFinding w results q = (ok, results', evs)"
  shows "titled results'"
proof (cases "truthy (EBAY_APP_ID w)")
  case False
  with assms show ?thesis by (auto simp: callEbayFinding_def truthy_def split: option.splits if_splits)
next
  case True
  then obtain a where a: "EBAY_APP_ID w = Some a" "a \<noteq> []" by (auto simp: truthy_def split: option.splits)
  obtain s1 where s1: "callFinding w a q ''EBAY-IE'' results = s1" by simp
  obtain s2 where s2: "unless_ok w a q ''EBAY-GB'' s1 = s2" by simp
  have t1: "titled (fst (snd s1))" using callFinding_titled[OF assms(1), of w a q "''EBAY-IE''"] s1
    by (cases s1) auto
  have t2: "titled (fst (snd s2))" using unless_ok_titled[OF t1, of w a q "''EBAY-GB''"] s2
    by (cases s2) auto
  have "unless_ok w a q ''EBAY-US'' s2 = (ok, results', evs)"
    using assms(2) a s1 s2 by (simp add: callEbayFinding_def)
  from unless_ok_titled[OF t2 this] show ?thesis .
qed

lemma scrapeDoneDeal_titled:
  "titled results \<Longrightarrow> scrapeDoneDeal w results q = (results', evs) \<Longrightarrow> titled results'"
  by (auto simp: scrapeDoneDeal_def titled_append titled_scraped split: sum.splits)

lemma scrapeAdverts_titled:
  "titled results \<Longrightarrow> scrapeAdverts w results q = (results', evs) \<Longrightarrow> titled results'"
  by (auto simp: scrapeAdverts_def titled_append titled_scraped split: sum.splits)

lemma collect_titled: "collect w now c q = (results, c', evs) \<Longrightarrow> titled results"
proof -
  assume col: "collect w now c q = (results, c', evs)"
  obtain used results1 c1 evs1 where b: "callEbayBrowse w now c [] q = (used, results1, c1, evs1)"
    by (cases "callEbayBrowse w now c [] q") auto
  have t0: "titled []" by (simp add: titled_def)
  note t1 = callEbayBrowse_titled[OF t0 b]
  obtain ok results2 evs2 where f: "callEbayFinding w results1 q = (ok, results2, evs2)"
    by (cases "callEbayFinding w results1 q") auto
  note t2 = callEbayFinding_titled[OF t1 f]
  define r2 where "r2 = (if \<not> used \<or> length results1 < 4 then results2 else results1)"
  have tr2: "titled r2" using t1 t2 by (simp add: r2_def)
  obtain results3 evs3 where d: "scrapeDoneDeal w r2 q = (results3, evs3)"
    by (cases "scrapeDoneDeal w r2 q") auto
  obtain results4 evs4 where a: "scrapeAdverts w results3 q = (results4, evs4)"
    by (cases "scrapeAdverts w results3 q") auto
  have "results = results4" using col b f d a by (auto simp: collect_def r2_def split: if_splits)
  with scrapeAdverts_titled[OF scrapeDoneDeal_titled[OF tr2 d] a] show ?thesis by simp
qed

subsection \<open>Which requests a search makes\<close>

lemma getEbayAppToken_events:
  "getEbayAppToken w now c = (r, c', evs) \<Longrightarrow> \<forall>e\<in>set evs. \<not> legacy_event e"
  by (auto simp: getEbayAppToken_def legacy_event_def Let_def split: option.splits sum.splits if_splits)

lemma browse_loop_events:
  "browse_loop w token q mps results = (ok, results', evs) \<Longrightarrow> \<forall>e\<in>set evs. \<not> legacy_event e"
proof (induction mps arbitrary: results ok results' evs)
  case Nil then show ?case by simp
next
  case (Cons mp mps)
  show ?case
  proof (cases "browse_endpoint w token mp q")
    case (Inl e)
    with Cons.prems show ?thesis by (auto simp: legacy_event_def)
  next
    case (Inr summaries)
    define rs where "rs = results @ concat (map (browse_listing w mp) (case summaries of None \<Rightarrow> [] | Some xs \<Rightarrow> xs))"
    show ?thesis
    proof (cases "length rs \<ge> 6")
      case True
      with Cons.prems Inr show ?thesis by (auto simp: legacy_event_def rs_def Let_def)
    next
      case False
      obtain ok2 r2 e2 where rec: "browse_loop w token q mps rs = (ok2, r2, e2)"
        by (cases "browse_loop w token q mps rs") auto
      from Cons.prems Inr False rec have "evs = BrowseGet mp q # e2"
        by (auto simp: rs_def Let_def)
      with Cons.IH[OF rec] show ?thesis by (auto simp: legacy_event_def)
    qed
  qed
qed

lemma callEbayBrowse_events:
  "callEbayBrowse w now c results q = (used, results', c', evs) \<Longrightarrow> \<forall>e\<in>set evs. \<not> legacy_event e"
  unfolding callEbayBrowse_def
  by (auto simp del: browse_loop.simps split: prod.splits sum.splits option.splits if_splits
      dest!: getEbayAppToken_events browse_loop_events)

lemma scrapeDoneDeal_events: "scrapeDoneDeal w results q = (results', evs) \<Longrightarrow> \<forall>e\<in>set evs. \<not> legacy_event e"
  by (auto simp: scrapeDoneDeal_def legacy_event_def split: sum.splits)

lemma scrapeAdverts_events: "scrapeAdverts w results q = (results', evs) \<Longrightarrow> \<forall>e\<in>set evs. \<not> legacy_event e"
  by (auto simp: scrapeAdverts_def legacy_event_def split: sum.splits)

lemma callEbayFinding_first_get:
  "truthy (EBAY_APP_ID w) \<Longrightarrow> callEbayFinding w results q = (ok, results', evs) \<Longrightarrow> FindingGet ''EBAY-IE'' q \<in> set evs"
  by (auto simp: callEbayFinding_def unless_ok_def callFinding_def truthy_def split: option.splits sum.splits if_splits)

lemma no_legacy_count: "\<forall>e\<in>set evs. \<not> legacy_event e \<Longrightarrow> finding_call_count evs = 0"
  by (auto simp: finding_call_count_def legacy_event_def filter_empty_conv)

lemma no_legacy_invoke: "\<forall>e\<in>set evs. \<not> legacy_event e \<Longrightarrow> Invoke Finding \<notin> set evs"
  by (auto simp: legacy_event_def)

section \<open>Properties of the image analysis\<close>

subsection \<open>\<open>Array.from(new Set(xs))\<close>\<close>

lemma set_foldl_set_add: "set (foldl set_add acc xs) = set acc \<union> set xs"
  by (induction xs arbitrary: acc) (auto simp: set_add_def)

lemma distinct_foldl_set_add: "distinct acc \<Longrightarrow> distinct (foldl set_add acc xs)"
  by (induction xs arbitrary: acc) (auto simp: set_add_def)

lemma foldl_set_add_subseq: "\<exists>ys. foldl set_add acc xs = acc @ ys \<and> subseq ys xs"
proof (induction xs arbitrary: acc)
  case Nil then show ?case by simp
next
  case (Cons x xs)
  show ?case
  proof (cases "x \<in> set acc")
    case True
    from Cons.IH[of acc] obtain ys where ys: "foldl set_add acc xs = acc @ ys" "subseq ys xs" by blast
    from True ys have "foldl set_add acc (x # xs) = acc @ ys \<and> subseq ys (x # xs)"
      by (auto simp: set_add_def intro: list_emb_Cons)
    then show ?thesis by blast
  next
    case False
    from Cons.IH[of "acc @ [x]"] obtain ys where "foldl set_add (acc @ [x]) xs = (acc @ [x]) @ ys" "subseq ys xs"
      by blast
    with False have "foldl set_add acc (x # xs) = acc @ (x # ys) \<and> subseq (x # ys) (x # xs)"
      by (simp add: set_add_def)
    then show ?thesis by blast
  qed
qed

lemma set_array_from_set: "set (array_from_set xs) = set xs"
  by (simp add: array_from_set_def set_foldl_set_add)

lemma distinct_array_from_set: "distinct (array_from_set xs)"
  by (simp add: array_from_set_def distinct_foldl_set_add)

lemma subseq_array_from_set: "subseq (array_from_set xs) xs"
  using foldl_set_add_subseq[of "[]" xs] by (auto simp: array_from_set_def)

subsection \<open>Upper case\<close>

lemma not_lower_to_upper: "\<not> is_lower (to_upper c)"
proof (cases "is_lower c")
  case True
  then have "(code c - 32) mod 256 < 97" by (simp add: is_lower_def) arith
  then show ?thesis using True by (simp add: to_upper_def is_lower_def code_def)
next
  case False then show ?thesis by (simp add: to_upper_def)
qed

lemma toUpperCase_idem: "toUpperCase (toUpperCase s) = toUpperCase s"
  using not_lower_to_upper by (simp add: toUpperCase_def to_upper_def)

lemma toUpperCase_digits: "\<forall>c\<in>set s. is_digit c \<Longrightarrow> toUpperCase s = s"
  by (induction s) (auto simp: toUpperCase_def to_upper_def is_digit_def is_lower_def)

subsection \<open>What the matcher returns\<close>

lemma first_some_map: "first_some (map f ks) = Some j \<Longrightarrow> \<exists>k\<in>set ks. f k = Some j"
proof (induction ks)
  case Nil then show ?case by simp
next
  case (Cons k ks)
  then show ?case by (cases "f k") auto
qed

lemma take_in_run: "k \<le> length (takeWhile P xs) \<Longrightarrow> \<forall>c\<in>set (take k xs). P c"
proof -
  assume k: "k \<le> length (takeWhile P xs)"
  have "take k (takeWhile P xs @ dropWhile P xs) = take k (takeWhile P xs)"
    using k by (simp del: takeWhile_dropWhile_id)
  then have "take k xs = take k (takeWhile P xs)" by simp
  then have "set (take k xs) \<subseteq> set (takeWhile P xs)" by (simp add: set_take_subset)
  then show ?thesis by (auto dest: set_takeWhileD)
qed

lemma matches_digits:
  assumes "matches rx_digits s i = Some j"
  shows "\<forall>c\<in>set (take (j - i) (drop i s)). is_digit c"
proof -
  define n where "n = length (takeWhile is_digit (drop i s))"
  from assms have "first_some (map (\<lambda>k. matches [Bnd] s (i + k)) (rev [4 ..< Suc (min 6 n)])) = Some j"
    by (simp add: rx_digits_def n_def Let_def split: if_splits)
  from first_some_map[OF this] obtain k where ks: "k \<in> set (rev [4 ..< Suc (min 6 n)])"
    and m: "matches [Bnd] s (i + k) = Some j"
    by blast
  from ks have k: "k \<le> n" by (auto simp: min_def split: if_splits)
  from m have "j = i + k" by (simp split: if_splits)
  with k take_in_run[of k is_digit "drop i s"] show ?thesis by (simp add: n_def)
qed

lemma match_all_sub:
  "x \<in> set (match_all rx s i) \<Longrightarrow> \<exists>i' j. matches rx s i' = Some j \<and> x = take (j - i') (drop i' s)"
proof (induction rx s i rule: match_all.induct)
  case (1 rx s i)
  show ?case
  proof (cases "length s < i")
    case True
    with "1.prems" show ?thesis by (subst (asm) match_all.simps) simp
  next
    case False
    show ?thesis
    proof (cases "matches rx s i")
      case None
      with False "1.prems" have "x \<in> set (match_all rx s (Suc i))"
        by (subst (asm) match_all.simps) simp
      with "1.IH"(1)[OF False None] show ?thesis by simp
    next
      case (Some j)
      with False "1.prems" have "x = take (j - i) (drop i s) \<or> x \<in> set (match_all rx s (if j \<le> i then Suc i else j))"
        by (subst (asm) match_all.simps) auto
      with "1.IH"(2)[OF False Some] Some show ?thesis by blast
    qed
  qed
qed

lemma match_all_digits: "x \<in> set (match_all rx_digits s i) \<Longrightarrow> \<forall>c\<in>set x. is_digit c"
  using match_all_sub[of x rx_digits s i] matches_digits by blast

lemma hint_candidates_upper: "h \<in> set (hint_candidates t) \<Longrightarrow> toUpperCase h = h"
  using match_all_digits[of h t 0]
  by (auto simp: hint_candidates_def toUpperCase_idem toUpperCase_digits)

subsection \<open>The cropper\<close>

lemma top_object_None: "top_object anns = None \<longleftrightarrow> anns = []"
proof -
  have "length (by_score_desc lo_score anns) = length anns" by (simp add: by_score_desc_def)
  then show ?thesis by (cases "by_score_desc lo_score anns") (auto simp: top_object_def)
qed

subsection \<open>Token cache\<close>

text \<open>
  C3, as amended. Let a non-empty token be cached with expiry \<open>T\<close>. At \<open>now = T - 61\<close>
  \<open>getEbayAppToken\<close> returns the cached token, leaves the cache as it is and sends no
  request. At \<open>now = T - 59\<close>, when both client credentials are configured and the
  exchange answers, it sends one client-credentials exchange, stores the returned token
  with expiry \<open>now\<close> plus the returned lifetime, where an omitted lifetime and a lifetime
  of zero both count as 7200 seconds, and returns the new token. At any \<open>now\<close> the
  cached token is returned without an exchange iff \<open>now < T - 60\<close>.
\<close>

theorem getEbayAppToken_window:
  assumes "tok \<noteq> []" and "c = \<lparr>ebayToken = Some tok, ebayTokenExp = T\<rparr>"
  shows "getEbayAppToken w (T - 61) c = (Inr (Some tok), c, [])
       \<and> (EBAY_CLIENT_ID w = Some cid \<and> cid \<noteq> [] \<and> EBAY_CLIENT_SECRET w = Some sec \<and> sec \<noteq> []
            \<and> token_endpoint w cid sec = Inr resp
          \<longrightarrow> getEbayAppToken w (T - 59) c =
                (Inr (access_token resp),
                 \<lparr>ebayToken = access_token resp,
                  ebayTokenExp = (T - 59) + (case expires_in resp of None \<Rightarrow> 7200
                                             | Some n \<Rightarrow> if n = 0 then 7200 else n)\<rparr>,
                 [TokenExchange cid sec]))
       \<and> (getEbayAppToken w now c = (Inr (Some tok), c, []) \<longleftrightarrow> now < T - 60)"
  using assms
  by (auto simp: getEbayAppToken_def truthy_def lifetime_def Let_def split: option.splits sum.splits)

theorem getEbayAppToken_window_witness:
  "getEbayAppToken stub_market 939 \<lparr>ebayToken = Some ''old'', ebayTokenExp = 1000\<rparr>
     = (Inr (Some ''old''), \<lparr>ebayToken = Some ''old'', ebayTokenExp = 1000\<rparr>, [])
   \<and> getEbayAppToken stub_market 941 \<lparr>ebayToken = Some ''old'', ebayTokenExp = 1000\<rparr>
     = (Inr (Some ''new''), \<lparr>ebayToken = Some ''new'', ebayTokenExp = 4541\<rparr>,
        [TokenExchange ''id'' ''secret''])"
proof -
  have h1: "''old'' \<noteq> []" by simp
  have h2: "\<lparr>ebayToken = Some ''old'', ebayTokenExp = 1000\<rparr> = \<lparr>ebayToken = Some ''old'', ebayTokenExp = 1000\<rparr>"
    by simp
  show ?thesis
    using getEbayAppToken_window[OF h1 h2, of stub_market "''id''" "''secret''"
        "\<lparr>access_token = Some ''new'', expires_in = Some 3600\<rparr>" 0]
    by (simp add: stub_market_def)
qed

text \<open>
  C3 as stated fails: the token endpoint returns the lifetime 0 at \<open>now = 941\<close>, and the
  stored expiry is \<open>941 + 7200\<close>, not \<open>941 + 0\<close>.
\<close>

theorem getEbayAppToken_zero_lifetime:
  "token_endpoint zero_lifetime ''id'' ''secret'' = Inr \<lparr>access_token = Some ''new'', expires_in = Some 0\<rparr>
   \<and> getEbayAppToken zero_lifetime 941 \<lparr>ebayToken = Some ''old'', ebayTokenExp = 1000\<rparr>
     = (Inr (Some ''new''), \<lparr>ebayToken = Some ''new'', ebayTokenExp = 8141\<rparr>,
        [TokenExchange ''id'' ''secret''])
   \<and> (8141 :: int) \<noteq> 941 + 0"
  by (simp add: getEbayAppToken_def zero_lifetime_def stub_market_def truthy_def lifetime_def)

subsection \<open>De-duplication\<close>

text \<open>
  C4. The key of a listing is its title, a bar, its price, a bar and its source, where
  a \<open>null\<close> price (like \<open>NaN\<close> and 0) contributes the empty string and any other
  price its conversion to a string. So listings with the same title, price and source
  have the same key, and two listings with the same title and source and non-zero
  prices have the same key iff their prices convert to the same string. For every list
  of listings that all have a title (every collected list has, by \<open>collect_titled\<close>)
  and every listing \<open>r\<close> in it, exactly one listing with the key of \<open>r\<close> is in the
  output, and it is the first listing with that key in the input; two listings of the
  input with different keys, such as two that differ in price only, have two different
  survivors; the output is the input with listings removed; no key occurs twice in the
  output; and the keys of the output are the distinct keys of the input in the order in
  which they are first seen.
\<close>

theorem dedup_first_occurrence:
  assumes "titled rs"
  shows "(\<forall>a b. title a = title b \<and> price a = price b \<and> source a = source b
            \<longrightarrow> dedup_key w a = dedup_key w b)
       \<and> (\<forall>a. price a = None \<longrightarrow> dedup_key w a = title a @ ''|'' @ '''' @ ''|'' @ source a)
       \<and> (\<forall>a. dedup_key w a =
              title a @ ''|''
              @ (case price a of
                   None \<Rightarrow> ''''
                 | Some NaN \<Rightarrow> ''''
                 | Some (Num q) \<Rightarrow> if q = 0 then '''' else number_to_string w q)
              @ ''|'' @ source a)
       \<and> (\<forall>a b p q. title a = title b \<and> source a = source b
              \<and> price a = Some (Num p) \<and> price b = Some (Num q) \<and> p \<noteq> 0 \<and> q \<noteq> 0
            \<longrightarrow> (dedup_key w a = dedup_key w b \<longleftrightarrow> number_to_string w p = number_to_string w q))
       \<and> (\<forall>r\<in>set rs. filter (\<lambda>x. dedup_key w x = dedup_key w r) (dedup_loop w rs {} [])
                        = [hd (filter (\<lambda>x. dedup_key w x = dedup_key w r) rs)])
       \<and> (\<forall>a\<in>set rs. \<forall>b\<in>set rs. dedup_key w a \<noteq> dedup_key w b
            \<longrightarrow> (\<exists>x\<in>set (dedup_loop w rs {} []). \<exists>y\<in>set (dedup_loop w rs {} []).
                    x \<noteq> y \<and> dedup_key w x = dedup_key w a \<and> dedup_key w y = dedup_key w b))
       \<and> subseq (dedup_loop w rs {} []) rs
       \<and> distinct (map (dedup_key w) (dedup_loop w rs {} []))
       \<and> map (dedup_key w) (dedup_loop w rs {} []) = array_from_set (map (dedup_key w) rs)"
proof -
  have same: "filter (\<lambda>x. dedup_key w x = k \<and> title x \<noteq> []) rs = filter (\<lambda>x. dedup_key w x = k) rs" for k
    using assms by (auto simp: titled_def intro: filter_cong)
  have first: "filter (\<lambda>x. dedup_key w x = dedup_key w r) (dedup_loop w rs {} [])
          = [hd (filter (\<lambda>x. dedup_key w x = dedup_key w r) rs)]" if "r \<in> set rs" for r
    using dedup_loop_first[of "dedup_key w r" "{}" w rs] same[of "dedup_key w r"]
      take1_filter_hd[of r rs "\<lambda>x. dedup_key w x = dedup_key w r"] that by simp
  have survivor: "\<exists>x\<in>set (dedup_loop w rs {} []). dedup_key w x = dedup_key w r" if "r \<in> set rs" for r
  proof -
    have "hd (filter (\<lambda>x. dedup_key w x = dedup_key w r) rs)
            \<in> set (filter (\<lambda>x. dedup_key w x = dedup_key w r) (dedup_loop w rs {} []))"
      using first[OF that] by simp
    then show ?thesis by auto
  qed
  have both: "\<forall>a\<in>set rs. \<forall>b\<in>set rs. dedup_key w a \<noteq> dedup_key w b
            \<longrightarrow> (\<exists>x\<in>set (dedup_loop w rs {} []). \<exists>y\<in>set (dedup_loop w rs {} []).
                    x \<noteq> y \<and> dedup_key w x = dedup_key w a \<and> dedup_key w y = dedup_key w b)"
  proof (intro ballI impI)
    fix a b assume a: "a \<in> set rs" and b: "b \<in> set rs" and ne: "dedup_key w a \<noteq> dedup_key w b"
    from survivor[OF a] obtain x where x: "x \<in> set (dedup_loop w rs {} [])" "dedup_key w x = dedup_key w a"
      by blast
    from survivor[OF b] obtain y where y: "y \<in> set (dedup_loop w rs {} [])" "dedup_key w y = dedup_key w b"
      by blast
    from x y ne have "x \<noteq> y" by auto
    with x y show "\<exists>x\<in>set (dedup_loop w rs {} []). \<exists>y\<in>set (dedup_loop w rs {} []).
                    x \<noteq> y \<and> dedup_key w x = dedup_key w a \<and> dedup_key w y = dedup_key w b"
      by blast
  qed
  have keys: "map (dedup_key w) (dedup_loop w rs {} []) = array_from_set (map (dedup_key w) rs)"
    using dedup_loop_keys[OF assms, of "[]" w] by (simp add: array_from_set_def)
  have fn: "\<forall>a b. title a = title b \<and> price a = price b \<and> source a = source b
            \<longrightarrow> dedup_key w a = dedup_key w b"
    by (simp add: dedup_key_def)
  have nul: "\<forall>a. price a = None \<longrightarrow> dedup_key w a = title a @ ''|'' @ '''' @ ''|'' @ source a"
    by (simp add: dedup_key_def price_key_def)
  have form: "\<forall>a. dedup_key w a =
              title a @ ''|''
              @ (case price a of
                   None \<Rightarrow> ''''
                 | Some NaN \<Rightarrow> ''''
                 | Some (Num q) \<Rightarrow> if q = 0 then '''' else number_to_string w q)
              @ ''|'' @ source a"
    by (simp add: dedup_key_def price_key_def)
  have differ: "\<forall>a b p q. title a = title b \<and> source a = source b
              \<and> price a = Some (Num p) \<and> price b = Some (Num q) \<and> p \<noteq> 0 \<and> q \<noteq> 0
            \<longrightarrow> (dedup_key w a = dedup_key w b \<longleftrightarrow> number_to_string w p = number_to_string w q)"
    by (simp add: dedup_key_def price_key_def)
  from fn nul form differ first both dedup_loop_subseq[of w rs "{}"] dedup_loop_distinct[of w rs "{}"] keys
  show ?thesis by (intro conjI ballI) blast+
qed

theorem dedup_first_occurrence_witness:
  "titled (fst (collect browse_five 1000 cold_cache ''dyson v8 absolute''))
   \<and> fst (collect browse_five 1000 cold_cache ''dyson v8 absolute'')
       = [listing_gb ''Dyson V8 Absolute'' (Some (Num 10)), listing_gb ''Dyson V8 Absolute'' (Some (Num (25 / 2))),
          listing_gb ''Dyson V8 Absolute'' (Some (Num 10)), listing_gb ''dyson v8'' (Some (Num 0)),
          listing_gb ''dyson v8'' (Some NaN)]
   \<and> dedup_key browse_five (listing_gb ''Dyson V8 Absolute'' (Some (Num 10)))
       \<noteq> dedup_key browse_five (listing_gb ''Dyson V8 Absolute'' (Some (Num (25 / 2))))
   \<and> subseq (dedup_loop browse_five (fst (collect browse_five 1000 cold_cache ''dyson v8 absolute'')) {} [])
        (fst (collect browse_five 1000 cold_cache ''dyson v8 absolute''))
   \<and> distinct (map (dedup_key browse_five)
        (dedup_loop browse_five (fst (collect browse_five 1000 cold_cache ''dyson v8 absolute'')) {} []))
   \<and> dedup_loop browse_five (fst (collect browse_five 1000 cold_cache ''dyson v8 absolute'')) {} []
       = [listing_gb ''Dyson V8 Absolute'' (Some (Num 10)), listing_gb ''Dyson V8 Absolute'' (Some (Num (25 / 2))),
          listing_gb ''dyson v8'' (Some (Num 0))]"
proof -
  have h: "titled (fst (collect browse_five 1000 cold_cache ''dyson v8 absolute''))" by code_simp
  have c: "fst (collect browse_five 1000 cold_cache ''dyson v8 absolute'')
       = [listing_gb ''Dyson V8 Absolute'' (Some (Num 10)), listing_gb ''Dyson V8 Absolute'' (Some (Num (25 / 2))),
          listing_gb ''Dyson V8 Absolute'' (Some (Num 10)), listing_gb ''dyson v8'' (Some (Num 0)),
          listing_gb ''dyson v8'' (Some NaN)]" by code_simp
  have v: "dedup_loop browse_five (fst (collect browse_five 1000 cold_cache ''dyson v8 absolute'')) {} []
       = [listing_gb ''Dyson V8 Absolute'' (Some (Num 10)), listing_gb ''Dyson V8 Absolute'' (Some (Num (25 / 2))),
          listing_gb ''dyson v8'' (Some (Num 0))]" by code_simp
  have n: "number_to_string browse_five 10 \<noteq> number_to_string browse_five (25 / 2)" by code_simp
  note th = dedup_first_occurrence[OF h, of browse_five]
  from th have d: "\<forall>a b p q. title a = title b \<and> source a = source b
              \<and> price a = Some (Num p) \<and> price b = Some (Num q) \<and> p \<noteq> 0 \<and> q \<noteq> 0
            \<longrightarrow> (dedup_key browse_five a = dedup_key browse_five b
                  \<longleftrightarrow> number_to_string browse_five p = number_to_string browse_five q)"
    by (elim conjE)
  have k: "dedup_key browse_five (listing_gb ''Dyson V8 Absolute'' (Some (Num 10)))
       \<noteq> dedup_key browse_five (listing_gb ''Dyson V8 Absolute'' (Some (Num (25 / 2))))"
    using d[rule_format, of "listing_gb ''Dyson V8 Absolute'' (Some (Num 10))"
        "listing_gb ''Dyson V8 Absolute'' (Some (Num (25 / 2)))" 10 "25 / 2"] n
    by (simp add: listing_gb_def)
  show ?thesis using th h c v k
    by (elim conjE) (intro conjI, assumption+)
qed

text \<open>
  C10. A price of 0, a \<open>null\<close> price and a \<open>NaN\<close> price all contribute the empty
  string to the key. So two listings with the same non-empty title and the same source,
  one with price 0 and the other with price \<open>null\<close> or \<open>NaN\<close>, have the same key,
  and exactly one listing with that key is in the output; of the two alone, the first
  survives.
\<close>

theorem dedup_falsy_price:
  assumes "a \<in> set rs" and "b \<in> set rs" and "title a \<noteq> []"
      and "title a = title b" and "source a = source b"
      and "price a = Some (Num 0)" and "price b = None \<or> price b = Some NaN"
  shows "price_key w (price a) = [] \<and> price_key w (price b) = []
       \<and> dedup_key w a = dedup_key w b
       \<and> length (filter (\<lambda>x. dedup_key w x = dedup_key w a) (dedup_loop w rs {} [])) = 1
       \<and> dedup_loop w [a, b] {} [] = [a] \<and> dedup_loop w [b, a] {} [] = [b]"
proof -
  have k: "dedup_key w a = dedup_key w b" and pa: "price_key w (price a) = []" and pb: "price_key w (price b) = []"
    using assms(4-7) by (auto simp: dedup_key_def price_key_def)
  have "filter (\<lambda>x. dedup_key w x = dedup_key w a \<and> title x \<noteq> []) rs \<noteq> []"
    using assms(1,3) by (auto simp: filter_empty_conv)
  then have "length (take 1 (filter (\<lambda>x. dedup_key w x = dedup_key w a \<and> title x \<noteq> []) rs)) = 1"
    by (cases "filter (\<lambda>x. dedup_key w x = dedup_key w a \<and> title x \<noteq> []) rs") auto
  then have one: "length (filter (\<lambda>x. dedup_key w x = dedup_key w a) (dedup_loop w rs {} [])) = 1"
    using dedup_loop_first[of "dedup_key w a" "{}" w rs] by simp
  have "title b \<noteq> []" using assms(3,4) by simp
  then show ?thesis using k pa pb one assms(3) by (simp add: Let_def)
qed

theorem dedup_falsy_price_witness:
  "listing_gb ''dyson v8'' (Some (Num 0)) \<in> set (fst (collect browse_five 1000 cold_cache ''dyson v8 absolute''))
   \<and> listing_gb ''dyson v8'' (Some NaN) \<in> set (fst (collect browse_five 1000 cold_cache ''dyson v8 absolute''))
   \<and> dedup_key browse_five (listing_gb ''dyson v8'' (Some (Num 0)))
       = dedup_key browse_five (listing_gb ''dyson v8'' (Some NaN))
   \<and> length (filter (\<lambda>x. dedup_key browse_five x = dedup_key browse_five (listing_gb ''dyson v8'' (Some (Num 0))))
        (dedup_loop browse_five (fst (collect browse_five 1000 cold_cache ''dyson v8 absolute'')) {} [])) = 1"
proof -
  have a: "listing_gb ''dyson v8'' (Some (Num 0)) \<in> set (fst (collect browse_five 1000 cold_cache ''dyson v8 absolute''))"
    by code_simp
  have b: "listing_gb ''dyson v8'' (Some NaN) \<in> set (fst (collect browse_five 1000 cold_cache ''dyson v8 absolute''))"
    by code_simp
  have t: "title (listing_gb ''dyson v8'' (Some (Num 0))) \<noteq> []" by (simp add: listing_gb_def)
  have tt: "title (listing_gb ''dyson v8'' (Some (Num 0))) = title (listing_gb ''dyson v8'' (Some NaN))"
    by (simp add: listing_gb_def)
  have s: "source (listing_gb ''dyson v8'' (Some (Num 0))) = source (listing_gb ''dyson v8'' (Some NaN))"
    by (simp add: listing_gb_def)
  have pa: "price (listing_gb ''dyson v8'' (Some (Num 0))) = Some (Num 0)" by (simp add: listing_gb_def)
  have pb: "price (listing_gb ''dyson v8'' (Some NaN)) = None \<or> price (listing_gb ''dyson v8'' (Some NaN)) = Some NaN"
    by (simp add: listing_gb_def)
  show ?thesis using dedup_falsy_price[OF a b t tt s pa pb, of browse_five] a b
    by (elim conjE) (intro conjI, assumption+)
qed

subsection \<open>The fallback to the Finding API\<close>

text \<open>
  C5. In a search, \<open>callEbayFinding\<close> is called iff \<open>callEbayBrowse\<close> returned
  \<open>false\<close> or left fewer than 4 listings in \<open>results\<close>. When Browse succeeded with at
  least 4 listings, in particular with 5, no request goes to the Finding API. When the
  fallback is taken and an application id is configured, the Irish site is queried.
\<close>

theorem finding_fallback_condition:
  "case callEbayBrowse w now c [] q of (used, results1, c1, evs1) \<Rightarrow>
   case collect w now c q of (results, c', evs) \<Rightarrow>
       (Invoke Finding \<in> set evs \<longleftrightarrow> \<not> used \<or> length results1 < 4)
     \<and> (used \<and> length results1 \<ge> 4 \<longrightarrow> finding_call_count evs = 0)
     \<and> (used \<and> length results1 = 5 \<longrightarrow> finding_call_count evs = 0)
     \<and> ((\<not> used \<or> length results1 < 4) \<and> truthy (EBAY_APP_ID w) \<longrightarrow> FindingGet ''EBAY-IE'' q \<in> set evs)"
proof -
  obtain used results1 c1 evs1 where b: "callEbayBrowse w now c [] q = (used, results1, c1, evs1)"
    by (cases "callEbayBrowse w now c [] q") auto
  note e1 = callEbayBrowse_events[OF b]
  show ?thesis
  proof (cases "\<not> used \<or> length results1 < 4")
    case True
    obtain ok results2 evs2 where f: "callEbayFinding w results1 q = (ok, results2, evs2)"
      by (cases "callEbayFinding w results1 q") auto
    obtain results3 evs3 where d: "scrapeDoneDeal w results2 q = (results3, evs3)"
      by (cases "scrapeDoneDeal w results2 q") auto
    obtain results4 evs4 where a: "scrapeAdverts w results3 q = (results4, evs4)"
      by (cases "scrapeAdverts w results3 q") auto
    have col: "collect w now c q =
        (results4, c1, Invoke Browse # evs1 @ (Invoke Finding # evs2) @ Invoke DoneDeal # evs3 @ Invoke Adverts # evs4)"
      using True b f d a by (simp add: collect_def)
    show ?thesis using True b col callEbayFinding_first_get[OF _ f] by auto
  next
    case False
    obtain results3 evs3 where d: "scrapeDoneDeal w results1 q = (results3, evs3)"
      by (cases "scrapeDoneDeal w results1 q") auto
    obtain results4 evs4 where a: "scrapeAdverts w results3 q = (results4, evs4)"
      by (cases "scrapeAdverts w results3 q") auto
    have col: "collect w now c q =
        (results4, c1, Invoke Browse # evs1 @ [] @ Invoke DoneDeal # evs3 @ Invoke Adverts # evs4)"
      using False b d a by (simp add: collect_def)
    have "\<forall>e\<in>set (Invoke Browse # evs1 @ [] @ Invoke DoneDeal # evs3 @ Invoke Adverts # evs4). \<not> legacy_event e"
      using e1 scrapeDoneDeal_events[OF d] scrapeAdverts_events[OF a] by (auto simp: legacy_event_def)
    from no_legacy_count[OF this] no_legacy_invoke[OF this] show ?thesis using False b col by simp
  qed
qed

theorem finding_fallback_condition_witness:
  "fst (callEbayBrowse browse_five 1000 cold_cache [] ''dyson v8 absolute'')
   \<and> length (fst (snd (callEbayBrowse browse_five 1000 cold_cache [] ''dyson v8 absolute''))) = 5
   \<and> finding_call_count (snd (snd (collect browse_five 1000 cold_cache ''dyson v8 absolute''))) = 0
   \<and> Invoke Finding \<notin> set (snd (snd (collect browse_five 1000 cold_cache ''dyson v8 absolute'')))"
proof -
  have u: "fst (callEbayBrowse browse_five 1000 cold_cache [] ''dyson v8 absolute'')" by code_simp
  have n: "length (fst (snd (callEbayBrowse browse_five 1000 cold_cache [] ''dyson v8 absolute''))) = 5"
    by code_simp
  show ?thesis
    using finding_fallback_condition[where w = browse_five and now = 1000 and c = cold_cache
        and q = "''dyson v8 absolute''"] u n
    by (auto split: prod.splits)
qed

text \<open>
  C6. With an application id configured, \<open>callEbayFinding\<close> queries the Irish site
  first; the British site only if the Irish request failed; the US site only if both
  failed. A request that succeeds ends the chain, whatever the number of its items, and
  only its listings are appended.
\<close>

theorem finding_chain_first_success:
  assumes "EBAY_APP_ID w = Some a" and "a \<noteq> []"
  shows "callEbayFinding w results q =
     (case finding_endpoint w a ''EBAY-IE'' q of
        Inr items \<Rightarrow>
          (True, results @ concat (map (finding_listing w ''EBAY-IE'') items), [FindingGet ''EBAY-IE'' q])
      | Inl e1 \<Rightarrow>
          (case finding_endpoint w a ''EBAY-GB'' q of
             Inr items \<Rightarrow>
               (True, results @ concat (map (finding_listing w ''EBAY-GB'') items),
                [FindingGet ''EBAY-IE'' q, FindingGet ''EBAY-GB'' q])
           | Inl e2 \<Rightarrow>
               (case finding_endpoint w a ''EBAY-US'' q of
                  Inr items \<Rightarrow>
                    (True, results @ concat (map (finding_listing w ''EBAY-US'') items),
                     [FindingGet ''EBAY-IE'' q, FindingGet ''EBAY-GB'' q, FindingGet ''EBAY-US'' q])
                | Inl e3 \<Rightarrow>
                    (False, results,
                     [FindingGet ''EBAY-IE'' q, FindingGet ''EBAY-GB'' q, FindingGet ''EBAY-US'' q]))))"
  using assms
  by (simp add: callEbayFinding_def unless_ok_def callFinding_def split: sum.splits)

theorem finding_chain_first_success_witness:
  "callEbayFinding finding_three [] ''dyson v8 absolute'' =
     (True,
      [listing_ie ''Dyson V8'' (Some (Num 10)), listing_ie ''Dyson V8'' (Some (Num 10)),
       listing_ie ''Dyson V8 Animal'' (Some (Num (25 / 2)))],
      [FindingGet ''EBAY-IE'' ''dyson v8 absolute''])"
proof -
  have a: "EBAY_APP_ID finding_three = Some ''app''" by (simp add: finding_three_def stub_market_def)
  have n: "''app'' \<noteq> []" by simp
  have e: "finding_endpoint finding_three ''app'' ''EBAY-IE'' ''dyson v8 absolute'' = Inr three_items"
    by (simp add: finding_three_def stub_market_def)
  have l: "concat (map (finding_listing finding_three ''EBAY-IE'') three_items) =
      [listing_ie ''Dyson V8'' (Some (Num 10)), listing_ie ''Dyson V8'' (Some (Num 10)),
       listing_ie ''Dyson V8 Animal'' (Some (Num (25 / 2)))]"
    by code_simp
  show ?thesis
    using finding_chain_first_success[OF a n, of "[]" "''dyson v8 absolute''"] e l by simp
qed

subsection \<open>The face policy\<close>

text \<open>
  C1. When the first analysis pass of a request yields a bundle with
  \<open>faceCount > 0\<close>, the handler answers with status 400, and the only calls it has made
  are the preprocessing of the image and the first pass itself: no region detection, no
  crop, no second vision pass and no chat request.
\<close>

theorem faces_rejected:
  assumes "b64 \<noteq> []" and "base64_decode w b64 = raw" and "raw \<noteq> []"
      and "prepForOCR w raw = Inr cleaned"
      and "runVisionAllFeatures w cleaned = (Inr base, evs)"
      and "faceCount base > 0"
  shows "api_vision w (Some b64) =
           (VStatus 400 ''Image contains faces. Please upload only product images.'',
            [PrepForOCR raw, AnnotateImage cleaned])"
  using assms
  by (auto simp: api_vision_def Let_def runVisionAllFeatures_def split: sum.splits)

theorem faces_rejected_witness:
  "api_vision stub_faces (Some ''aGVsbG8='') =
     (VStatus 400 ''Image contains faces. Please upload only product images.'',
      [PrepForOCR ''aGVsbG8='', AnnotateImage ''aGVsbG8=''])"
proof -
  have h1: "''aGVsbG8='' \<noteq> []" by simp
  have h2: "base64_decode stub_faces ''aGVsbG8='' = ''aGVsbG8=''"
    by (simp add: stub_faces_def stub_vision_def)
  have h3: "prepForOCR stub_faces ''aGVsbG8='' = Inr ''aGVsbG8=''"
    by (simp add: stub_faces_def stub_vision_def)
  have h4: "runVisionAllFeatures stub_faces ''aGVsbG8='' = (Inr (normalize_response face_response), [AnnotateImage ''aGVsbG8=''])"
    by (simp add: runVisionAllFeatures_def stub_faces_def stub_vision_def)
  have h5: "faceCount (normalize_response face_response) > 0"
    by (simp add: normalize_response_def face_response_def or_empty_def)
  show ?thesis by (rule faces_rejected[OF h1 h2 h1 h3 h4 h5])
qed

subsection \<open>The second opinion\<close>

text \<open>
  C2, as amended. \<open>runOpenAIVisionExtract\<close> sends one chat request. Its result is
  \<open>null\<close> iff the request failed or the reply parses to the JSON value \<open>null\<close>. When
  the reply cannot be parsed the result is not \<open>null\<close>: it is the structured guess
  with every field at its default (brand, model and product type the empty string, no
  synonyms, confidence 0). In every other case too the result is a structured guess with
  the fields brand, model, product type, synonyms and a numeric confidence.
\<close>

theorem second_opinion_null_cases:
  "(chat_completion w (data_url b64) = Inl e \<longrightarrow> fst (runOpenAIVisionExtract w b64) = None)
   \<and> (chat_completion w (data_url b64) = Inr content \<and> JSON_parse w (raw_reply content) = None
        \<longrightarrow> fst (runOpenAIVisionExtract w b64) = Some default_opinion)
   \<and> (fst (runOpenAIVisionExtract w b64) = None
        \<longleftrightarrow> (\<exists>e'. chat_completion w (data_url b64) = Inl e')
            \<or> (\<exists>c. chat_completion w (data_url b64) = Inr c \<and> JSON_parse w (raw_reply c) = Some JNull))
   \<and> snd (runOpenAIVisionExtract w b64) = [ChatCompletion (data_url b64)]"
  by (auto simp: runOpenAIVisionExtract_def Let_def default_opinion_def member_or_empty_def member_array_def
      member_number_def member_def split: sum.splits option.splits)

theorem second_opinion_null_cases_witness:
  "fst (runOpenAIVisionExtract stub_chat_down ''aGVsbG8='') = None
   \<and> fst (runOpenAIVisionExtract stub_vision ''aGVsbG8='') = Some default_opinion"
proof -
  have d: "chat_completion stub_chat_down (data_url ''aGVsbG8='') = Inl (Error ''timeout'')"
    by (simp add: stub_chat_down_def stub_vision_def)
  have c: "chat_completion stub_vision (data_url ''aGVsbG8='') = Inr (Some ''I cannot see a product.'')"
    by (simp add: stub_vision_def)
  have p: "JSON_parse stub_vision (raw_reply (Some ''I cannot see a product.'')) = None"
    by code_simp
  show ?thesis
    using second_opinion_null_cases[of stub_chat_down "''aGVsbG8=''" "Error ''timeout''"]
      second_opinion_null_cases[of stub_vision "''aGVsbG8=''" _ "Some ''I cannot see a product.''"] d c p
    by blast
qed

text \<open>
  C2 as stated fails: the chat model answers in prose, \<open>JSON.parse\<close> throws, and the
  second opinion is the structured guess with default fields, not \<open>null\<close>.
\<close>

theorem unparseable_reply_not_null:
  "chat_completion stub_vision (data_url ''aGVsbG8='') = Inr (Some ''I cannot see a product.'')
   \<and> JSON_parse stub_vision (raw_reply (Some ''I cannot see a product.'')) = None
   \<and> fst (runOpenAIVisionExtract stub_vision ''aGVsbG8='') = Some default_opinion
   \<and> fst (runOpenAIVisionExtract stub_vision ''aGVsbG8='') \<noteq> None"
  by code_simp

subsection \<open>Merging the crop pass\<close>

text \<open>
  C7. In the bundle merged from the first pass and the crop pass, \<open>logos\<close> holds
  exactly the logos of the two passes and \<open>webEntities\<close> exactly their web entities, so
  neither loses an element of either input, and no string occurs twice in either list.
  Strings are compared as they are: \<open>Dyson\<close> and \<open>dyson\<close> are both kept.
\<close>

theorem merge_signals_sets:
  "set (logos (merge_signals base cropSignals)) = set (logos base) \<union> set (logos cropSignals)
   \<and> distinct (logos (merge_signals base cropSignals))
   \<and> set (webEntities (merge_signals base cropSignals)) = set (webEntities base) \<union> set (webEntities cropSignals)
   \<and> distinct (webEntities (merge_signals base cropSignals))
   \<and> logos (merge_signals (normalize_response product_response) (normalize_response product_response)) = [''Dyson'', ''dyson'']"
proof -
  have ex: "logos (merge_signals (normalize_response product_response) (normalize_response product_response)) = [''Dyson'', ''dyson'']"
    by code_simp
  show ?thesis using ex by (simp add: merge_signals_def set_array_from_set distinct_array_from_set)
qed

subsection \<open>Model hints\<close>

text \<open>
  C8. For every OCR text \<open>extractModelHints\<close> returns at most 10 hints, no hint
  twice, every hint in upper case, in the order in which the three heuristics produced
  them; every value handed to the set is in upper case already, so the set compares
  upper-cased strings. For the text \<open>Model SM-G991B spare part 123456\<close> the hints are
  \<open>123456\<close> (from the digit heuristic, which runs first) and \<open>SM-G991B\<close>, each
  once.
\<close>

theorem model_hints_properties:
  "length (extractModelHints t) \<le> 10
   \<and> distinct (extractModelHints t)
   \<and> (\<forall>h\<in>set (extractModelHints t). toUpperCase h = h)
   \<and> (\<forall>h\<in>set (hint_candidates t). toUpperCase h = h)
   \<and> subseq (extractModelHints t) (hint_candidates t)
   \<and> extractModelHints ''Model SM-G991B spare part 123456'' = [''123456'', ''SM-G991B'']"
proof -
  have ex: "extractModelHints ''Model SM-G991B spare part 123456'' = [''123456'', ''SM-G991B'']"
    by code_simp
  have "subseq (take 10 (array_from_set (hint_candidates t))) (array_from_set (hint_candidates t))"
    by (rule prefix_imp_subseq[OF take_is_prefix])
  from subseq_order.trans[OF this subseq_array_from_set]
  have sub: "subseq (extractModelHints t) (hint_candidates t)"
    by (simp add: extractModelHints_def)
  have up: "\<forall>h\<in>set (extractModelHints t). toUpperCase h = h"
    using hint_candidates_upper[of _ t] set_array_from_set[of "hint_candidates t"]
    by (auto simp: extractModelHints_def dest!: in_set_takeD)
  have cand: "\<forall>h\<in>set (hint_candidates t). toUpperCase h = h"
    using hint_candidates_upper[of _ t] by blast
  have len: "length (extractModelHints t) \<le> 10" by (simp add: extractModelHints_def)
  have dist: "distinct (extractModelHints t)" by (simp add: extractModelHints_def distinct_array_from_set)
  from len dist up cand sub ex show ?thesis by (intro conjI)
qed

theorem model_hints_properties_witness:
  "extractModelHints ''lego 75288 a1b2c A1B2C'' = [''75288'', ''A1B2C'']
   \<and> ''A1B2C'' \<in> set (extractModelHints ''lego 75288 a1b2c A1B2C'')
   \<and> toUpperCase ''A1B2C'' = ''A1B2C''"
proof -
  have v: "extractModelHints ''lego 75288 a1b2c A1B2C'' = [''75288'', ''A1B2C'']" by code_simp
  have m: "''A1B2C'' \<in> set (extractModelHints ''lego 75288 a1b2c A1B2C'')" by code_simp
  have up: "\<forall>h\<in>set (extractModelHints ''lego 75288 a1b2c A1B2C''). toUpperCase h = h"
    using model_hints_properties[of "''lego 75288 a1b2c A1B2C''"] by (elim conjE)
  from bspec[OF up m] v m show ?thesis by (intro conjI)
qed

subsection \<open>No region\<close>

text \<open>
  C9. When region detection answers with no region, or the region of highest score has
  a polygon of fewer than 4 vertices, \<open>cropPrimaryObject\<close> returns \<open>null\<close> and not an
  error, after the one detection request; \<open>merged\<close> after the crop block is the
  first-pass bundle itself; and the handler, when the first pass succeeded without
  faces, builds its response from the first-pass bundle and the second opinion alone,
  with no second vision pass in its trace.
\<close>

theorem no_region_keeps_first_pass:
  assumes "objectLocalization w cleaned = Inr objResp"
      and "case top_object (or_empty objResp) of
             None \<Rightarrow> True
           | Some t \<Rightarrow> length (or_empty (normalizedVertices t)) < 4"
  shows "cropPrimaryObject w cleaned = (Inr None, [ObjectLocalization cleaned])
       \<and> crop_pass w cleaned base = (base, [ObjectLocalization cleaned])
       \<and> (b64 \<noteq> [] \<and> base64_decode w b64 \<noteq> [] \<and> prepForOCR w (base64_decode w b64) = Inr cleaned
            \<and> runVisionAllFeatures w cleaned = (Inr base, evs1) \<and> faceCount base = 0
          \<longrightarrow> api_vision w (Some b64) =
                (VOk (fold_second_opinion (fst (runOpenAIVisionExtract w b64)) (as_json base))
                   (extractModelHints (ocrText base)) (fst (runOpenAIVisionExtract w b64)),
                 PrepForOCR (base64_decode w b64) # evs1 @ [ObjectLocalization cleaned]
                   @ snd (runOpenAIVisionExtract w b64)))"
proof -
  have c: "cropPrimaryObject w cleaned = (Inr None, [ObjectLocalization cleaned])"
    using assms top_object_None[of "or_empty objResp"]
    by (auto simp: cropPrimaryObject_def Let_def split: option.splits)
  then have p: "crop_pass w cleaned base = (base, [ObjectLocalization cleaned])"
    by (simp add: crop_pass_def)
  show ?thesis using c p by (auto simp: api_vision_def Let_def split: prod.splits)
qed

theorem no_region_keeps_first_pass_witness:
  "cropPrimaryObject stub_vision ''aGVsbG8='' = (Inr None, [ObjectLocalization ''aGVsbG8=''])
   \<and> crop_pass stub_vision ''aGVsbG8='' (normalize_response product_response)
       = (normalize_response product_response, [ObjectLocalization ''aGVsbG8=''])
   \<and> api_vision stub_vision (Some ''aGVsbG8='') =
       (VOk (fold_second_opinion (fst (runOpenAIVisionExtract stub_vision ''aGVsbG8=''))
               (as_json (normalize_response product_response)))
          (extractModelHints (ocrText (normalize_response product_response)))
          (fst (runOpenAIVisionExtract stub_vision ''aGVsbG8='')),
        PrepForOCR ''aGVsbG8='' # [AnnotateImage ''aGVsbG8=''] @ [ObjectLocalization ''aGVsbG8='']
          @ snd (runOpenAIVisionExtract stub_vision ''aGVsbG8=''))"
proof -
  have h1: "objectLocalization stub_vision ''aGVsbG8='' = Inr (Some [triangle])"
    by (simp add: stub_vision_def)
  have h2: "case top_object (or_empty (Some [triangle])) of
              None \<Rightarrow> True
            | Some t \<Rightarrow> length (or_empty (normalizedVertices t)) < 4"
    by code_simp
  have g1: "''aGVsbG8='' \<noteq> []" by simp
  have g2: "base64_decode stub_vision ''aGVsbG8='' = ''aGVsbG8=''" by (simp add: stub_vision_def)
  have g3: "prepForOCR stub_vision ''aGVsbG8='' = Inr ''aGVsbG8=''" by (simp add: stub_vision_def)
  have g4: "runVisionAllFeatures stub_vision ''aGVsbG8='' = (Inr (normalize_response product_response), [AnnotateImage ''aGVsbG8=''])"
    by (simp add: runVisionAllFeatures_def stub_vision_def)
  have g5: "faceCount (normalize_response product_response) = 0"
    by (simp add: normalize_response_def product_response_def empty_response_def or_empty_def)
  show ?thesis
    using no_region_keeps_first_pass[OF h1 h2, where base = "normalize_response product_response"
        and ?b64.0 = "''aGVsbG8=''" and ?evs1.0 = "[AnnotateImage ''aGVsbG8='']"] g1 g2 g3 g4 g5
    by simp
qed

end
